theory Spec2Isabelle
  imports Main "HOL-Library.Word"
begin

unbundle bit_operations_syntax

section \<open>Data model of the LRZ tracker (src/freedreno/vulkan/tu_lrz.c)\<close>

text \<open>
  The model follows \<^verbatim>\<open>tu_lrz.c\<close>. Structs are records, enums are datatypes,
  \<^verbatim>\<open>uint32_t\<close>/\<^verbatim>\<open>uint64_t\<close> are words. A function that mutates
  \<^verbatim>\<open>cmd->state\<close> takes the command buffer and returns the updated one; a function
  that emits into a command stream returns the entries it emits, in order. An
  \<^verbatim>\<open>assert\<close> that fails, an \<^verbatim>\<open>unreachable\<close> and an array read past the
  end are values of \<open>lrz_error\<close>.
\<close>

datatype lrz_error =
    UNREACHABLE_BAD_COMPARE_OP
  | ASSERT_FAILED
  | INDEX_OUT_OF_BOUNDS

text \<open>
  Modelled from the spec: the declaration of \<^verbatim>\<open>VkCompareOp\<close> (the Vulkan header)
  is not among the source files. The constructors are the eight compare functions the spec and the
  two switches of the code name; the last one stands for every other value of the C
  enum (the header's \<^verbatim>\<open>VK_COMPARE_OP_MAX_ENUM\<close>): it is what the
  \<^verbatim>\<open>default\<close> branches of the two switches receive.
\<close>

datatype VkCompareOp =
    VK_COMPARE_OP_NEVER
  | VK_COMPARE_OP_LESS
  | VK_COMPARE_OP_EQUAL
  | VK_COMPARE_OP_LESS_OR_EQUAL
  | VK_COMPARE_OP_GREATER
  | VK_COMPARE_OP_NOT_EQUAL
  | VK_COMPARE_OP_GREATER_OR_EQUAL
  | VK_COMPARE_OP_ALWAYS
  | VK_COMPARE_OP_MAX_ENUM

text \<open>
  Modelled from the spec: the declaration of \<^verbatim>\<open>enum tu_lrz_direction\<close>
  (\<^verbatim>\<open>tu_lrz.h\<close>) is not among the source files. Its values are the spec's Unknown, Less and
  Greater under the names the code uses; \<open>TU_LRZ_UNKNOWN\<close> is the value 0 that
  \<^verbatim>\<open>memset\<close> leaves.
\<close>

datatype tu_lrz_direction = TU_LRZ_UNKNOWN | TU_LRZ_LESS | TU_LRZ_GREATER

text \<open>
  Modelled from the spec: the declaration of the \<^verbatim>\<open>dir\<close> field's enum (the
  register header) is not among the source files. Its values are the spec's LessEqual,
  GreaterEqual and Invalid under the names the code uses, and \<open>LRZ_DIR_ZERO\<close>, the
  value of the zero-initialised struct, which is none of the three.
\<close>

datatype a6xx_lrz_dir_status = LRZ_DIR_ZERO | LRZ_DIR_LE | LRZ_DIR_GE | LRZ_DIR_INVALID

text \<open>
  Modelled from the spec: the declaration of \<^verbatim>\<open>struct A6XX_GRAS_LRZ_CNTL\<close> (the
  register header) is not among the source files. The record is the spec's directive, with one
  field for each member the code assigns.
\<close>

record A6XX_GRAS_LRZ_CNTL =
  enable :: bool
  lrz_write :: bool
  greater_f :: bool
  fc_enable :: bool
  z_test_enable :: bool
  z_bounds_enable :: bool
  dir :: a6xx_lrz_dir_status
  dir_write :: bool
  disable_on_wrong_dir :: bool

text \<open>\<^verbatim>\<open>struct A6XX_GRAS_LRZ_CNTL gras_lrz_cntl = { 0 }\<close>.\<close>

definition A6XX_GRAS_LRZ_CNTL_zero :: A6XX_GRAS_LRZ_CNTL where
  "A6XX_GRAS_LRZ_CNTL_zero =
     \<lparr>enable = False, lrz_write = False, greater_f = False, fc_enable = False,
      z_test_enable = False, z_bounds_enable = False, dir = LRZ_DIR_ZERO,
      dir_write = False, disable_on_wrong_dir = False\<rparr>"

text \<open>
  Modelled from the spec: the declaration of \<^verbatim>\<open>struct tu_image\<close>
  (\<^verbatim>\<open>tu_image.h\<close>) is not among the source files. The fields are the image metadata the code
  reads: the address, the LRZ buffer layout and the fast-clear buffer size.
\<close>

record tu_image =
  iova :: "64 word"
  lrz_offset :: "32 word"
  lrz_fc_offset :: "32 word"
  lrz_pitch :: "32 word"
  lrz_height :: "32 word"
  lrz_fc_size :: "32 word"

text \<open>
  Modelled from the spec: the declaration of \<^verbatim>\<open>struct tu_image_view\<close>
  (\<^verbatim>\<open>tu_image.h\<close>) is not among the source files. The fields are the image the view points to
  and the packed \<^verbatim>\<open>view.GRAS_LRZ_DEPTH_VIEW\<close> register value.
\<close>

record tu_image_view =
  image_f :: tu_image
  GRAS_LRZ_DEPTH_VIEW :: "32 word"

text \<open>
  Modelled from the spec: the declaration of \<^verbatim>\<open>VkClearValue\<close> (the Vulkan header)
  is not among the source files. It is read through \<^verbatim>\<open>depthStencil\<close>. The \<^verbatim>\<open>float depth\<close>
  is kept as its IEEE-754 binary32 bit pattern, so that the two comparisons the code
  makes are exact: \<^verbatim>\<open>depth == 0.f\<close> holds for the patterns of +0 and -0 only, and
  \<^verbatim>\<open>depth == 1.f\<close> for the pattern \<open>0x3F800000\<close> only (a NaN equals nothing).
\<close>

record VkClearValue =
  depth :: "32 word"
  stencil :: "32 word"

definition VkClearValue_zero :: VkClearValue where
  "VkClearValue_zero = \<lparr>depth = 0, stencil = 0\<rparr>"

definition float_eq_0 :: "32 word \<Rightarrow> bool" where
  "float_eq_0 f = (f = 0x00000000 \<or> f = 0x80000000)"

definition float_eq_1 :: "32 word \<Rightarrow> bool" where
  "float_eq_1 f = (f = 0x3F800000)"

text \<open>
  Modelled from the spec: the declaration of \<^verbatim>\<open>struct tu_lrz_state\<close>
  (\<^verbatim>\<open>tu_lrz.h\<close>) is not among the source files. The record is the spec's tracker,
  \<^verbatim>\<open>cmd->state.lrz\<close>, with the field names the code uses.
\<close>

record tu_lrz_state =
  image_view :: "tu_image_view option"
  valid :: bool
  enabled :: bool
  fast_clear :: bool
  gpu_dir_tracking :: bool
  reuse_previous_state :: bool
  prev_direction :: tu_lrz_direction
  depth_clear_value :: VkClearValue

text \<open>\<^verbatim>\<open>memset(&cmd->state.lrz, 0, sizeof(cmd->state.lrz))\<close>.\<close>

definition tu_lrz_state_zero :: tu_lrz_state where
  "tu_lrz_state_zero =
     \<lparr>image_view = None, valid = False, enabled = False, fast_clear = False,
      gpu_dir_tracking = False, reuse_previous_state = False,
      prev_direction = TU_LRZ_UNKNOWN, depth_clear_value = VkClearValue_zero\<rparr>"

text \<open>
  Modelled from the spec: the declaration of \<^verbatim>\<open>struct tu_render_pass_attachment\<close>
  (\<^verbatim>\<open>tu_pass.h\<close>) is not among the source files. Of the \<^verbatim>\<open>VkFormat\<close> the code only asks
  \<^verbatim>\<open>vk_format_has_depth\<close> and \<^verbatim>\<open>vk_format_get_nr_components\<close> (both defined
  outside this file), so the format is kept as these two answers.
\<close>

record tu_render_pass_attachment =
  format_has_depth :: bool
  format_nr_components :: nat
  clear_mask :: "32 word"
  load :: bool

text \<open>
  Modelled from the spec: the declaration of \<^verbatim>\<open>struct tu_pipeline\<close> and the masks
  \<^verbatim>\<open>TU_LRZ_FORCE_DISABLE_*\<close> and \<^verbatim>\<open>BIT(TU_DYNAMIC_STATE_*)\<close>
  (\<^verbatim>\<open>tu_pipeline.h\<close>) are not among the source files. Each boolean field is the truth value of
  one mask test the decision engine makes.
\<close>

record tu_pipeline =
  force_disable_lrz :: bool
  force_disable_write :: bool
  dynamic_logic_op :: bool
  dynamic_blend_enable :: bool
  dynamic_blend :: bool
  dynamic_color_write_enable :: bool
  blend_num_rts :: nat

text \<open>
  Modelled from the spec: the declaration of \<^verbatim>\<open>struct tu_cmd_buffer\<close>
  (\<^verbatim>\<open>tu_cmd_buffer.h\<close>) and the register masks
  \<^verbatim>\<open>A6XX_RB_DEPTH_CNTL_*\<close>, \<^verbatim>\<open>A6XX_RB_STENCIL_CONTROL_*\<close> and
  \<^verbatim>\<open>A6XX_RB_MRT_CONTROL_*\<close> are not among the source files. The record is restricted to what
  the LRZ code reads and writes:
  device capabilities, the render pass and subpass, the per-draw register shadows
  and the tracker \<open>lrz\<close>. \<^verbatim>\<open>rb_depth_cntl\<close> and \<^verbatim>\<open>rb_stencil_cntl\<close> are kept
  as the fields the code extracts from them (test, write and bounds enables, the
  compare functions); \<open>rb_mrt_component_enable\<close> holds the component-enable field of
  each \<^verbatim>\<open>rb_mrt_control[i]\<close>. \<open>attachments\<close> is \<open>None\<close> for the NULL pointer of a
  secondary command buffer. \<open>dirty_lrz\<close> is the \<^verbatim>\<open>TU_CMD_DIRTY_LRZ\<close> bit of
  \<^verbatim>\<open>state.dirty\<close>.
\<close>

record tu_cmd_buffer =
  has_lrz_dir_tracking :: bool
  lrz_track_quirk :: bool
  debug_nolrz :: bool
  pass_attachments :: "tu_render_pass_attachment list"
  subpass_count :: nat
  subpass_depth_stencil_attachment :: "32 word"
  subpass_color_attachments :: "32 word list"
  attachments :: "tu_image_view list option"
  pipeline :: tu_pipeline
  rb_depth_z_test_enable :: bool
  rb_depth_z_write_enable :: bool
  rb_depth_z_bounds_enable :: bool
  rb_depth_zfunc :: VkCompareOp
  rb_stencil_enable :: bool
  rb_stencil_func :: VkCompareOp
  rb_stencil_func_bf :: VkCompareOp
  stencil_front_write :: bool
  stencil_back_write :: bool
  logic_op_enabled :: bool
  rop_reads_dst :: bool
  blend_enable :: bool
  rb_mrt_component_enable :: "32 word list"
  color_write_enable :: "32 word"
  dirty_lrz :: bool
  lrz :: tu_lrz_state

text \<open>
  Modelled from the spec: the Vulkan header is not among the source files.
  \<^verbatim>\<open>VK_ATTACHMENT_UNUSED\<close> is the index that says there is no attachment
  (\<^verbatim>\<open>~0U\<close>); the two aspect bits are those the code tests in
  \<^verbatim>\<open>clear_mask\<close>.
\<close>

definition VK_ATTACHMENT_UNUSED :: "32 word" where
  "VK_ATTACHMENT_UNUSED = 0xFFFFFFFF"

definition VK_IMAGE_ASPECT_COLOR_BIT :: "32 word" where
  "VK_IMAGE_ASPECT_COLOR_BIT = 1"

definition VK_IMAGE_ASPECT_DEPTH_BIT :: "32 word" where
  "VK_IMAGE_ASPECT_DEPTH_BIT = 2"

text \<open>
  Modelled from the spec: the macro \<^verbatim>\<open>MASK\<close> (a utility header) is not among the source files. \<^verbatim>\<open>MASK(n)\<close> has the low \<open>n\<close> bits set, which is the complete
  colour-write mask of \<open>n\<close> components or render targets.
\<close>

definition MASK :: "nat \<Rightarrow> 32 word" where
  "MASK n = 2 ^ n - 1"

section \<open>The per-draw decision engine\<close>

text \<open>
  \<^verbatim>\<open>tu6_stencil_op_lrz_allowed\<close>. The \<^verbatim>\<open>gras_lrz_cntl\<close> it writes through the
  pointer is returned next to the boolean result.
\<close>

fun tu6_stencil_op_lrz_allowed ::
  "A6XX_GRAS_LRZ_CNTL \<Rightarrow> VkCompareOp \<Rightarrow> bool \<Rightarrow> A6XX_GRAS_LRZ_CNTL \<times> bool" where
  "tu6_stencil_op_lrz_allowed gras_lrz_cntl VK_COMPARE_OP_ALWAYS stencil_write =
     (if stencil_write then (gras_lrz_cntl, False) else (gras_lrz_cntl, True))"
| "tu6_stencil_op_lrz_allowed gras_lrz_cntl VK_COMPARE_OP_NEVER stencil_write =
     (gras_lrz_cntl\<lparr>lrz_write := False\<rparr>, True)"
| "tu6_stencil_op_lrz_allowed gras_lrz_cntl func stencil_write =
     (if stencil_write then (gras_lrz_cntl\<lparr>lrz_write := False\<rparr>, False)
      else (gras_lrz_cntl\<lparr>lrz_write := False\<rparr>, True))"

text \<open>
  The loop of \<^verbatim>\<open>tu6_calculate_lrz_state\<close> over the subpass's colour attachments
  (taken when the blend state is dynamic): \<open>True\<close> when some used attachment's
  component-enable field differs from the full mask of its format, which is where the
  loop clears \<^verbatim>\<open>lrz_write\<close> and breaks. \<open>i\<close> is the loop index of the head of the
  remaining attachments.
\<close>

fun color_write_mask_partial ::
  "tu_render_pass_attachment list \<Rightarrow> 32 word list \<Rightarrow> nat \<Rightarrow> 32 word list \<Rightarrow> lrz_error + bool" where
  "color_write_mask_partial atts mrt i [] = Inr False"
| "color_write_mask_partial atts mrt i (a # rest) =
     (if a = VK_ATTACHMENT_UNUSED then color_write_mask_partial atts mrt (Suc i) rest
      else if unat a < length atts \<and> i < length mrt then
        (if mrt ! i \<noteq> MASK (format_nr_components (atts ! unat a)) then Inr True
         else color_write_mask_partial atts mrt (Suc i) rest)
      else Inl INDEX_OUT_OF_BOUNDS)"

text \<open>
  The \<^verbatim>\<open>switch (depth_compare_op)\<close> of \<^verbatim>\<open>tu6_calculate_lrz_state\<close>. It
  updates the directive and the flags \<^verbatim>\<open>disable_lrz\<close> and
  \<^verbatim>\<open>temporary_disable_lrz\<close> and yields the candidate \<^verbatim>\<open>lrz_direction\<close>.
\<close>

fun depth_compare_op_switch ::
  "VkCompareOp \<Rightarrow> bool \<Rightarrow> A6XX_GRAS_LRZ_CNTL \<Rightarrow> bool \<Rightarrow> bool \<Rightarrow>
   lrz_error + (A6XX_GRAS_LRZ_CNTL \<times> bool \<times> bool \<times> tu_lrz_direction)" where
  "depth_compare_op_switch VK_COMPARE_OP_ALWAYS z_write c disable_lrz temporary_disable_lrz =
     (if z_write then Inr (c\<lparr>dir := LRZ_DIR_INVALID\<rparr>, True, temporary_disable_lrz, TU_LRZ_UNKNOWN)
      else Inr (c, disable_lrz, True, TU_LRZ_UNKNOWN))"
| "depth_compare_op_switch VK_COMPARE_OP_NOT_EQUAL z_write c disable_lrz temporary_disable_lrz =
     (if z_write then Inr (c\<lparr>dir := LRZ_DIR_INVALID\<rparr>, True, temporary_disable_lrz, TU_LRZ_UNKNOWN)
      else Inr (c, disable_lrz, True, TU_LRZ_UNKNOWN))"
| "depth_compare_op_switch VK_COMPARE_OP_EQUAL z_write c disable_lrz temporary_disable_lrz =
     Inr (c, disable_lrz, True, TU_LRZ_UNKNOWN)"
| "depth_compare_op_switch VK_COMPARE_OP_NEVER z_write c disable_lrz temporary_disable_lrz =
     Inr (c, disable_lrz, True, TU_LRZ_UNKNOWN)"
| "depth_compare_op_switch VK_COMPARE_OP_GREATER z_write c disable_lrz temporary_disable_lrz =
     Inr (c\<lparr>greater_f := True, dir := LRZ_DIR_GE\<rparr>, disable_lrz, temporary_disable_lrz, TU_LRZ_GREATER)"
| "depth_compare_op_switch VK_COMPARE_OP_GREATER_OR_EQUAL z_write c disable_lrz temporary_disable_lrz =
     Inr (c\<lparr>greater_f := True, dir := LRZ_DIR_GE\<rparr>, disable_lrz, temporary_disable_lrz, TU_LRZ_GREATER)"
| "depth_compare_op_switch VK_COMPARE_OP_LESS z_write c disable_lrz temporary_disable_lrz =
     Inr (c\<lparr>greater_f := False, dir := LRZ_DIR_LE\<rparr>, disable_lrz, temporary_disable_lrz, TU_LRZ_LESS)"
| "depth_compare_op_switch VK_COMPARE_OP_LESS_OR_EQUAL z_write c disable_lrz temporary_disable_lrz =
     Inr (c\<lparr>greater_f := False, dir := LRZ_DIR_LE\<rparr>, disable_lrz, temporary_disable_lrz, TU_LRZ_LESS)"
| "depth_compare_op_switch VK_COMPARE_OP_MAX_ENUM z_write c disable_lrz temporary_disable_lrz =
     Inl UNREACHABLE_BAD_COMPARE_OP"

text \<open>
  The stencil block of \<^verbatim>\<open>tu6_calculate_lrz_state\<close>, entered when
  \<^verbatim>\<open>!disable_lrz && stencil_test_enable\<close>. The back face is evaluated only when the
  front face allowed LRZ (\<^verbatim>\<open>lrz_allowed && ...\<close> short-circuits).
\<close>

definition stencil_block ::
  "tu_cmd_buffer \<Rightarrow> bool \<Rightarrow> A6XX_GRAS_LRZ_CNTL \<Rightarrow> bool \<Rightarrow> bool \<Rightarrow>
   A6XX_GRAS_LRZ_CNTL \<times> bool \<times> bool" where
  "stencil_block cmd z_write c disable_lrz temporary_disable_lrz =
     (let (c1, front_allowed) =
            tu6_stencil_op_lrz_allowed c (rb_stencil_func cmd) (stencil_front_write cmd);
          (c2, lrz_allowed) =
            (if front_allowed
             then tu6_stencil_op_lrz_allowed c1 (rb_stencil_func_bf cmd) (stencil_back_write cmd)
             else (c1, False))
      in if \<not> lrz_allowed then
           (if z_write then (c2, True, temporary_disable_lrz) else (c2, disable_lrz, True))
         else (c2, disable_lrz, temporary_disable_lrz))"

text \<open>
  The writes to \<^verbatim>\<open>gras_lrz_cntl.lrz_write\<close> for dynamic logic op, dynamic blend
  enable, dynamic blend (the colour attachment loop) and dynamic colour write enable.
\<close>

definition dynamic_state_lrz_write :: "tu_cmd_buffer \<Rightarrow> bool \<Rightarrow> lrz_error + bool" where
  "dynamic_state_lrz_write cmd w0 =
     (let w1 = (if dynamic_logic_op (pipeline cmd) \<and> logic_op_enabled cmd \<and> rop_reads_dst cmd
                then False else w0);
          w2 = (if dynamic_blend_enable (pipeline cmd) \<and> blend_enable cmd then False else w1)
      in case (if dynamic_blend (pipeline cmd)
               then color_write_mask_partial (pass_attachments cmd) (rb_mrt_component_enable cmd) 0
                      (subpass_color_attachments cmd)
               else Inr False) of
           Inl e \<Rightarrow> Inl e
         | Inr partial \<Rightarrow>
             (let w3 = (if partial then False else w2)
              in Inr (if dynamic_color_write_enable (pipeline cmd) \<and>
                         (color_write_enable cmd AND MASK (length (subpass_color_attachments cmd)))
                           \<noteq> MASK (blend_num_rts (pipeline cmd))
                      then False else w3)))"

text \<open>
  The fragment-shader block of \<^verbatim>\<open>tu6_calculate_lrz_state\<close>
  (\<^verbatim>\<open>pipeline->lrz.force_disable_mask & TU_LRZ_FORCE_DISABLE_LRZ\<close>): the values of
  \<^verbatim>\<open>disable_lrz\<close> and \<^verbatim>\<open>temporary_disable_lrz\<close> after it, both
  \<^verbatim>\<open>false\<close> before.
\<close>

definition fs_block :: "tu_cmd_buffer \<Rightarrow> bool \<times> bool" where
  "fs_block cmd =
     (if force_disable_lrz (pipeline cmd) then
        (if prev_direction (lrz cmd) \<noteq> TU_LRZ_UNKNOWN \<or> \<not> gpu_dir_tracking (lrz cmd)
         then (False, True) else (True, False))
      else (False, False))"

text \<open>
  The direction-change block: the recorded direction and the candidate are both known
  and differ.
\<close>

definition direction_change_block ::
  "tu_cmd_buffer \<Rightarrow> tu_lrz_direction \<Rightarrow> bool \<Rightarrow> bool \<Rightarrow> bool \<Rightarrow> bool \<times> bool" where
  "direction_change_block cmd lrz_direction z_write disable_lrz temporary_disable_lrz =
     (if prev_direction (lrz cmd) \<noteq> TU_LRZ_UNKNOWN \<and>
         lrz_direction \<noteq> TU_LRZ_UNKNOWN \<and>
         prev_direction (lrz cmd) \<noteq> lrz_direction
      then (if z_write then (True, temporary_disable_lrz) else (disable_lrz, True))
      else (disable_lrz, temporary_disable_lrz))"

text \<open>
  The end of \<^verbatim>\<open>tu6_calculate_lrz_state\<close>, from \<^verbatim>\<open>if (disable_lrz)\<close> to the
  final \<^verbatim>\<open>return\<close>.
\<close>

definition finish_block ::
  "tu_cmd_buffer \<Rightarrow> A6XX_GRAS_LRZ_CNTL \<Rightarrow> bool \<Rightarrow> bool \<Rightarrow> A6XX_GRAS_LRZ_CNTL \<times> tu_cmd_buffer" where
  "finish_block cmd1 c2 disable_lrz temporary_disable_lrz =
     (let cmd2 = (if disable_lrz then cmd1\<lparr>lrz := (lrz cmd1)\<lparr>valid := False\<rparr>\<rparr> else cmd1)
      in if disable_lrz \<and> gpu_dir_tracking (lrz cmd2)
         then (c2\<lparr>enable := True, dir := LRZ_DIR_INVALID\<rparr>, cmd2)
         else
           (let c3 = (if temporary_disable_lrz then c2\<lparr>enable := False\<rparr> else c2);
                cmd3 = cmd2\<lparr>lrz := (lrz cmd2)\<lparr>enabled := (valid (lrz cmd2) \<and> enable c3)\<rparr>\<rparr>
            in (if \<not> enabled (lrz cmd3) then A6XX_GRAS_LRZ_CNTL_zero else c3, cmd3)))"

text \<open>
  \<^verbatim>\<open>tu6_calculate_lrz_state(cmd, a)\<close>: the directive for the draw and the command
  buffer with the tracker advanced. The three early returns leave \<open>cmd\<close> as it is. The
  blocks above are run in the order of the source.
\<close>

definition tu6_calculate_lrz_state ::
  "tu_cmd_buffer \<Rightarrow> 32 word \<Rightarrow> lrz_error + (A6XX_GRAS_LRZ_CNTL \<times> tu_cmd_buffer)" where
  "tu6_calculate_lrz_state cmd a =
     (let z_test = rb_depth_z_test_enable cmd;
          z_write = rb_depth_z_write_enable cmd;
          z_bounds = rb_depth_z_bounds_enable cmd;
          depth_compare_op = rb_depth_zfunc cmd;
          gras_lrz_cntl = A6XX_GRAS_LRZ_CNTL_zero
      in if \<not> valid (lrz cmd) then Inr (gras_lrz_cntl, cmd)
         else if a = VK_ATTACHMENT_UNUSED \<or> \<not> z_test \<or> debug_nolrz cmd
           then Inr (gras_lrz_cntl, cmd)
         else if \<not> gpu_dir_tracking (lrz cmd) \<and> attachments cmd = None
           then Inr (gras_lrz_cntl, cmd)
         else
           (case dynamic_state_lrz_write cmd (z_write \<and> \<not> force_disable_write (pipeline cmd)) of
              Inl e \<Rightarrow> Inl e
            | Inr w \<Rightarrow>
              (let c0 = gras_lrz_cntl\<lparr>enable := True, lrz_write := w, z_test_enable := z_write,
                          z_bounds_enable := z_bounds, fc_enable := fast_clear (lrz cmd),
                          dir_write := gpu_dir_tracking (lrz cmd),
                          disable_on_wrong_dir := gpu_dir_tracking (lrz cmd)\<rparr>;
                   (disable_lrz0, temporary_disable_lrz0) = fs_block cmd
               in case depth_compare_op_switch depth_compare_op z_write c0
                         disable_lrz0 temporary_disable_lrz0 of
                    Inl e \<Rightarrow> Inl e
                  | Inr (c1, disable_lrz1, temporary_disable_lrz1, lrz_direction) \<Rightarrow>
                    (let (disable_lrz2, temporary_disable_lrz2) =
                           direction_change_block cmd lrz_direction z_write
                             disable_lrz1 temporary_disable_lrz1;
                         cmd1 = (if z_write \<and> lrz_direction \<noteq> TU_LRZ_UNKNOWN
                                 then cmd\<lparr>lrz := (lrz cmd)\<lparr>prev_direction := lrz_direction\<rparr>\<rparr>
                                 else cmd);
                         (c2, disable_lrz, temporary_disable_lrz) =
                           (if \<not> disable_lrz2 \<and> rb_stencil_enable cmd1
                            then stencil_block cmd1 z_write c1 disable_lrz2 temporary_disable_lrz2
                            else (c1, disable_lrz2, temporary_disable_lrz2))
                     in Inr (finish_block cmd1 c2 disable_lrz temporary_disable_lrz)))))"

section \<open>Command stream\<close>

text \<open>
  Modelled from the spec: the command-stream primitives (\<^verbatim>\<open>tu_cs_emit_regs\<close>,
  \<^verbatim>\<open>tu_cs_emit_pkt4\<close>, \<^verbatim>\<open>tu_cs_emit_pkt7\<close>, \<^verbatim>\<open>tu6_emit_event_write\<close>,
  \<^verbatim>\<open>tu6_clear_lrz\<close>, \<^verbatim>\<open>tu6_dirty_lrz_fc\<close>) are not among the source files. The types
  below record what the LRZ code appends to a command stream, one constructor per emitting call:
  the three buffer registers of \<^verbatim>\<open>tu6_emit_lrz_buffer\<close>, the two write paths of
  \<^verbatim>\<open>tu6_write_lrz_reg\<close>, \<^verbatim>\<open>tu6_emit_event_write\<close>, the external
  \<^verbatim>\<open>tu6_clear_lrz\<close> and \<^verbatim>\<open>tu6_dirty_lrz_fc\<close>, and the
  \<^verbatim>\<open>RB_LRZ_CNTL\<close> write of \<^verbatim>\<open>tu6_emit_lrz\<close>.
\<close>

datatype tu_reg_value =
    REG_GRAS_LRZ_DEPTH_VIEW_FIELDS "32 word" "32 word" "32 word"
  | REG_GRAS_LRZ_DEPTH_VIEW_DWORD "32 word"
  | REG_GRAS_LRZ_CNTL A6XX_GRAS_LRZ_CNTL

datatype vgt_event_type = LRZ_CLEAR | LRZ_FLUSH

datatype cs_entry =
    CS_LRZ_BUFFER_REGS "64 word" "32 word" "64 word"
  | CS_PKT7_REG_WRITE_TRACK_LRZ tu_reg_value
  | CS_PKT4 tu_reg_value
  | CS_EVENT_WRITE vgt_event_type
  | CS_CLEAR_LRZ tu_image VkClearValue
  | CS_DIRTY_LRZ_FC tu_image
  | CS_RB_LRZ_CNTL bool

text \<open>\<^verbatim>\<open>tu6_emit_lrz_buffer(cs, depth_image)\<close>; \<open>None\<close> is the NULL image.\<close>

definition tu6_emit_lrz_buffer :: "tu_image option \<Rightarrow> cs_entry list" where
  "tu6_emit_lrz_buffer depth_image =
     (case depth_image of
        None \<Rightarrow> [CS_LRZ_BUFFER_REGS 0 0 0]
      | Some img \<Rightarrow>
          (let lrz_iova = iova img + ucast (lrz_offset img);
               lrz_fc_iova = (if lrz_fc_offset img = 0 then 0
                              else iova img + ucast (lrz_fc_offset img))
           in [CS_LRZ_BUFFER_REGS lrz_iova (lrz_pitch img) lrz_fc_iova]))"

text \<open>\<^verbatim>\<open>tu6_write_lrz_reg(cmd, cs, reg)\<close>.\<close>

definition tu6_write_lrz_reg :: "tu_cmd_buffer \<Rightarrow> tu_reg_value \<Rightarrow> cs_entry list" where
  "tu6_write_lrz_reg cmd reg =
     (if lrz_track_quirk cmd then [CS_PKT7_REG_WRITE_TRACK_LRZ reg] else [CS_PKT4 reg])"

text \<open>\<^verbatim>\<open>tu6_disable_lrz_via_depth_view(cmd, cs)\<close>.\<close>

definition tu6_disable_lrz_via_depth_view :: "tu_cmd_buffer \<Rightarrow> cs_entry list" where
  "tu6_disable_lrz_via_depth_view cmd =
     tu6_write_lrz_reg cmd (REG_GRAS_LRZ_DEPTH_VIEW_FIELDS 0b11111111111 0b11111111111 0b1111) @
     tu6_write_lrz_reg cmd
       (REG_GRAS_LRZ_CNTL (A6XX_GRAS_LRZ_CNTL_zero\<lparr>enable := True, disable_on_wrong_dir := True\<rparr>)) @
     [CS_EVENT_WRITE LRZ_CLEAR, CS_EVENT_WRITE LRZ_FLUSH]"

text \<open>\<^verbatim>\<open>tu_disable_lrz(cmd, cs, image)\<close>.\<close>

definition tu_disable_lrz :: "tu_cmd_buffer \<Rightarrow> tu_image \<Rightarrow> cs_entry list" where
  "tu_disable_lrz cmd img =
     (if \<not> has_lrz_dir_tracking cmd then []
      else if lrz_height img = 0 then []
      else tu6_emit_lrz_buffer (Some img) @ tu6_disable_lrz_via_depth_view cmd)"

section \<open>Initialisation of the tracker\<close>

text \<open>
  \<^verbatim>\<open>att->clear_mask & (VK_IMAGE_ASPECT_COLOR_BIT | VK_IMAGE_ASPECT_DEPTH_BIT)\<close>, as
  a truth value.
\<close>

definition clears_depth_of :: "tu_render_pass_attachment \<Rightarrow> bool" where
  "clears_depth_of att =
     (clear_mask att AND (VK_IMAGE_ASPECT_COLOR_BIT OR VK_IMAGE_ASPECT_DEPTH_BIT) \<noteq> 0)"

text \<open>\<^verbatim>\<open>tu_lrz_init_state(cmd, att, view)\<close>.\<close>

definition tu_lrz_init_state ::
  "tu_cmd_buffer \<Rightarrow> tu_render_pass_attachment \<Rightarrow> tu_image_view \<Rightarrow> lrz_error + tu_cmd_buffer" where
  "tu_lrz_init_state cmd att view =
     (if lrz_height (image_f view) = 0 then
        (if debug_nolrz cmd \<or> \<not> format_has_depth att then Inr cmd else Inl ASSERT_FAILED)
      else
        (let clears_depth = clears_depth_of att;
             has_gpu_tracking = has_lrz_dir_tracking cmd
         in if \<not> has_gpu_tracking \<and> \<not> clears_depth then Inr cmd
            else
              (let cmd1 = cmd\<lparr>lrz := (lrz cmd)\<lparr>image_view := Some view\<rparr>\<rparr>
               in if \<not> clears_depth \<and> \<not> load att then Inr cmd1
                  else Inr (cmd1\<lparr>lrz := (lrz cmd1)
                          \<lparr>valid := True,
                           prev_direction := TU_LRZ_UNKNOWN,
                           fast_clear := (lrz_fc_size (image_f view) > 0),
                           gpu_dir_tracking := has_gpu_tracking,
                           reuse_previous_state := \<not> clears_depth\<rparr>\<rparr>))))"

text \<open>\<^verbatim>\<open>tu_lrz_init_secondary(cmd, att)\<close>.\<close>

definition tu_lrz_init_secondary ::
  "tu_cmd_buffer \<Rightarrow> tu_render_pass_attachment \<Rightarrow> tu_cmd_buffer" where
  "tu_lrz_init_secondary cmd att =
     (let has_gpu_tracking = has_lrz_dir_tracking cmd
      in if \<not> has_gpu_tracking then cmd
         else if debug_nolrz cmd then cmd
         else if \<not> format_has_depth att then cmd
         else cmd\<lparr>lrz := (lrz cmd)
                \<lparr>valid := True,
                 prev_direction := TU_LRZ_UNKNOWN,
                 gpu_dir_tracking := has_gpu_tracking,
                 fast_clear := True,
                 image_view := None,
                 reuse_previous_state := False\<rparr>\<rparr>)"

text \<open>
  The search loop of \<^verbatim>\<open>tu_lrz_begin_resumed_renderpass\<close>: from index \<open>a\<close>, the
  first attachment whose image has an LRZ buffer, or \<open>count\<close> when there is none.
\<close>

function first_lrz_attachment :: "tu_image_view list \<Rightarrow> nat \<Rightarrow> nat \<Rightarrow> lrz_error + nat" where
  "first_lrz_attachment views count a =
     (if a < count then
        (if a < length views then
           (if lrz_height (image_f (views ! a)) \<noteq> 0 then Inr a
            else first_lrz_attachment views count (Suc a))
         else Inl INDEX_OUT_OF_BOUNDS)
      else Inr a)"
  by pat_completeness auto
termination
  by (relation "measure (\<lambda>(views, count, a). count - a)") auto

declare first_lrz_attachment.simps [simp del]

text \<open>
  \<^verbatim>\<open>tu_lrz_begin_resumed_renderpass(cmd, clear_values)\<close>. A NULL
  \<^verbatim>\<open>attachments\<close> pointer is an array with no element: with no pass attachment
  the loop body never runs and the pointer is not read, otherwise the first read is
  the error.
\<close>

definition tu_lrz_begin_resumed_renderpass ::
  "tu_cmd_buffer \<Rightarrow> VkClearValue list \<Rightarrow> lrz_error + tu_cmd_buffer" where
  "tu_lrz_begin_resumed_renderpass cmd clear_values =
     (let cmd0 = cmd\<lparr>lrz := tu_lrz_state_zero\<rparr>;
          count = length (pass_attachments cmd);
          views = (case attachments cmd of None \<Rightarrow> [] | Some vs \<Rightarrow> vs)
      in case first_lrz_attachment views count 0 of
           Inl e \<Rightarrow> Inl e
         | Inr a \<Rightarrow>
             (if a \<noteq> count then
                (let att = pass_attachments cmd ! a
                 in case tu_lrz_init_state cmd0 att (views ! a) of
                      Inl e \<Rightarrow> Inl e
                    | Inr cmd1 \<Rightarrow>
                        (if clears_depth_of att then
                           (if a < length clear_values then
                              (let clear = clear_values ! a
                               in Inr (cmd1\<lparr>lrz := (lrz cmd1)
                                        \<lparr>depth_clear_value := clear,
                                         fast_clear := (fast_clear (lrz cmd1) \<and>
                                           (float_eq_0 (depth clear) \<or> float_eq_1 (depth clear)))\<rparr>,
                                       dirty_lrz := True\<rparr>))
                            else Inl INDEX_OUT_OF_BOUNDS)
                         else Inr (cmd1\<lparr>dirty_lrz := True\<rparr>)))
              else Inr cmd0))"

text \<open>
  The counting loop of \<^verbatim>\<open>tu_lrz_begin_renderpass\<close>: it reads every
  \<^verbatim>\<open>attachments[i]\<close> with \<open>i < attachment_count\<close>.
\<close>

definition lrz_img_count_of :: "tu_image_view list \<Rightarrow> nat \<Rightarrow> lrz_error + nat" where
  "lrz_img_count_of views count =
     (if count \<le> length views
      then Inr (length (filter (\<lambda>v. lrz_height (image_f v) \<noteq> 0) (take count views)))
      else Inl INDEX_OUT_OF_BOUNDS)"

text \<open>
  \<^verbatim>\<open>tu_lrz_begin_renderpass(cmd, clear_values)\<close>, with what it emits into
  \<^verbatim>\<open>cmd->cs\<close>.
\<close>

definition tu_lrz_begin_renderpass ::
  "tu_cmd_buffer \<Rightarrow> VkClearValue list \<Rightarrow> lrz_error + (tu_cmd_buffer \<times> cs_entry list)" where
  "tu_lrz_begin_renderpass cmd clear_values =
     (let count = length (pass_attachments cmd);
          views = (case attachments cmd of None \<Rightarrow> [] | Some vs \<Rightarrow> vs)
      in case lrz_img_count_of views count of
           Inl e \<Rightarrow> Inl e
         | Inr lrz_img_count \<Rightarrow>
             (if has_lrz_dir_tracking cmd \<and> subpass_count cmd > 1 \<and> lrz_img_count > 1 then
                Inr (cmd\<lparr>lrz := tu_lrz_state_zero\<rparr>,
                     concat (map (\<lambda>v. tu_disable_lrz cmd (image_f v)) (take count views)))
              else
                (case tu_lrz_begin_resumed_renderpass cmd clear_values of
                   Inl e \<Rightarrow> Inl e
                 | Inr cmd1 \<Rightarrow>
                     Inr (cmd1, if \<not> valid (lrz cmd1) then tu6_emit_lrz_buffer None else []))))"

text \<open>\<^verbatim>\<open>tu_lrz_begin_secondary_cmdbuf(cmd)\<close>.\<close>

definition tu_lrz_begin_secondary_cmdbuf :: "tu_cmd_buffer \<Rightarrow> lrz_error + tu_cmd_buffer" where
  "tu_lrz_begin_secondary_cmdbuf cmd =
     (let cmd0 = cmd\<lparr>lrz := tu_lrz_state_zero\<rparr>;
          a = subpass_depth_stencil_attachment cmd
      in if a \<noteq> VK_ATTACHMENT_UNUSED then
           (if unat a < length (pass_attachments cmd)
            then Inr (tu_lrz_init_secondary cmd0 (pass_attachments cmd ! unat a))
            else Inl INDEX_OUT_OF_BOUNDS)
         else Inr cmd0)"

section \<open>Tile pass begin and the in-pass disable\<close>

text \<open>
  \<^verbatim>\<open>tu_lrz_tiling_begin(cmd, cs)\<close>: the entries appended to \<open>cs\<close>. The
  \<^verbatim>\<open>assert(lrz->gpu_dir_tracking)\<close> of the reuse branch is the error.
\<close>

definition tu_lrz_tiling_begin :: "tu_cmd_buffer \<Rightarrow> lrz_error + cs_entry list" where
  "tu_lrz_tiling_begin cmd =
     (case image_view (lrz cmd) of
        None \<Rightarrow> Inr []
      | Some iv \<Rightarrow>
          (let l = lrz cmd;
               out0 = tu6_emit_lrz_buffer (Some (image_f iv))
           in if reuse_previous_state l then
                (if gpu_dir_tracking l
                 then Inr (out0 @
                        tu6_write_lrz_reg cmd (REG_GRAS_LRZ_DEPTH_VIEW_DWORD (GRAS_LRZ_DEPTH_VIEW iv)))
                 else Inl ASSERT_FAILED)
              else
                (let invalidate_lrz = (\<not> valid l \<and> gpu_dir_tracking l);
                     out1 =
                       (if invalidate_lrz then
                          tu6_disable_lrz_via_depth_view cmd @
                          tu6_write_lrz_reg cmd (REG_GRAS_LRZ_DEPTH_VIEW_DWORD 0)
                        else if fast_clear l \<or> gpu_dir_tracking l then
                          (if gpu_dir_tracking l
                           then tu6_write_lrz_reg cmd
                                  (REG_GRAS_LRZ_DEPTH_VIEW_DWORD (GRAS_LRZ_DEPTH_VIEW iv))
                           else []) @
                          tu6_write_lrz_reg cmd
                            (REG_GRAS_LRZ_CNTL (A6XX_GRAS_LRZ_CNTL_zero
                               \<lparr>enable := True, fc_enable := fast_clear l,
                                disable_on_wrong_dir := gpu_dir_tracking l\<rparr>)) @
                          [CS_EVENT_WRITE LRZ_CLEAR]
                        else []);
                     out2 =
                       (if \<not> fast_clear l \<and> \<not> invalidate_lrz then
                          CS_CLEAR_LRZ (image_f iv) (depth_clear_value l) #
                          (if lrz_fc_size (image_f iv) \<noteq> 0 then [CS_DIRTY_LRZ_FC (image_f iv)] else [])
                        else [])
                 in Inr (out0 @ out1 @ out2))))"

text \<open>
  \<^verbatim>\<open>tu_lrz_disable_during_renderpass(cmd)\<close>, with what it emits into
  \<^verbatim>\<open>cmd->cs\<close>. The record always carries its render pass, which is what the
  function's \<^verbatim>\<open>assert(cmd->state.pass)\<close> asks for.
\<close>

definition tu_lrz_disable_during_renderpass :: "tu_cmd_buffer \<Rightarrow> tu_cmd_buffer \<times> cs_entry list" where
  "tu_lrz_disable_during_renderpass cmd =
     (let cmd1 = cmd\<lparr>lrz := (lrz cmd)\<lparr>valid := False\<rparr>, dirty_lrz := True\<rparr>
      in (cmd1,
          if gpu_dir_tracking (lrz cmd1) then
            tu6_write_lrz_reg cmd1
              (REG_GRAS_LRZ_CNTL (A6XX_GRAS_LRZ_CNTL_zero
                 \<lparr>enable := True, dir := LRZ_DIR_INVALID, disable_on_wrong_dir := True\<rparr>))
          else []))"

text \<open>\<^verbatim>\<open>tu6_emit_lrz(cmd, cs)\<close>: the per-draw call of the decision engine.\<close>

definition tu6_emit_lrz :: "tu_cmd_buffer \<Rightarrow> lrz_error + (tu_cmd_buffer \<times> cs_entry list)" where
  "tu6_emit_lrz cmd =
     (case tu6_calculate_lrz_state cmd (subpass_depth_stencil_attachment cmd) of
        Inl e \<Rightarrow> Inl e
      | Inr (gras_lrz_cntl, cmd1) \<Rightarrow>
          Inr (cmd1,
               tu6_write_lrz_reg cmd1 (REG_GRAS_LRZ_CNTL gras_lrz_cntl) @
               [CS_RB_LRZ_CNTL (enable gras_lrz_cntl)]))"

section \<open>Sequences of operations on one tracker\<close>

text \<open>
  One draw as the tracker sees it: the command buffer as it stands at the draw (its
  \<open>lrz\<close> field is replaced by the tracker that is threaded through) and the depth
  attachment index passed to \<^verbatim>\<open>tu6_calculate_lrz_state\<close>.
\<close>

definition draw_step ::
  "tu_lrz_state \<Rightarrow> tu_cmd_buffer \<times> 32 word \<Rightarrow> lrz_error + (A6XX_GRAS_LRZ_CNTL \<times> tu_lrz_state)" where
  "draw_step s d =
     (case tu6_calculate_lrz_state ((fst d)\<lparr>lrz := s\<rparr>) (snd d) of
        Inl e \<Rightarrow> Inl e
      | Inr (c, cmd') \<Rightarrow> Inr (c, lrz cmd'))"

text \<open>
  The trackers observed along the draws of one render pass: element \<open>k\<close> is the
  tracker that draw \<open>k\<close> receives, the last element the tracker after the last draw. A
  draw that ends in an error ends the trace.
\<close>

fun lrz_pass_trace :: "tu_lrz_state \<Rightarrow> (tu_cmd_buffer \<times> 32 word) list \<Rightarrow> tu_lrz_state list" where
  "lrz_pass_trace s [] = [s]"
| "lrz_pass_trace s (d # ds) =
     s # (case draw_step s d of Inl e \<Rightarrow> [] | Inr (c, s') \<Rightarrow> lrz_pass_trace s' ds)"

text \<open>
  The operations of this file that write the tracker: the three begin operations, the
  per-draw decision engine and the in-pass disable. Each carries the command buffer it
  is called on; the tracker inside it is the one threaded through.
\<close>

datatype lrz_op =
    OP_BEGIN_RENDERPASS tu_cmd_buffer "VkClearValue list"
  | OP_BEGIN_RESUMED_RENDERPASS tu_cmd_buffer "VkClearValue list"
  | OP_BEGIN_SECONDARY_CMDBUF tu_cmd_buffer
  | OP_DRAW tu_cmd_buffer "32 word"
  | OP_DISABLE_DURING_RENDERPASS tu_cmd_buffer

fun is_begin_op :: "lrz_op \<Rightarrow> bool" where
  "is_begin_op (OP_BEGIN_RENDERPASS cmd cvs) = True"
| "is_begin_op (OP_BEGIN_RESUMED_RENDERPASS cmd cvs) = True"
| "is_begin_op (OP_BEGIN_SECONDARY_CMDBUF cmd) = True"
| "is_begin_op (OP_DRAW cmd a) = False"
| "is_begin_op (OP_DISABLE_DURING_RENDERPASS cmd) = False"

fun lrz_op_step :: "tu_lrz_state \<Rightarrow> lrz_op \<Rightarrow> lrz_error + tu_lrz_state" where
  "lrz_op_step s (OP_BEGIN_RENDERPASS cmd cvs) =
     (case tu_lrz_begin_renderpass (cmd\<lparr>lrz := s\<rparr>) cvs of
        Inl e \<Rightarrow> Inl e | Inr (cmd', out) \<Rightarrow> Inr (lrz cmd'))"
| "lrz_op_step s (OP_BEGIN_RESUMED_RENDERPASS cmd cvs) =
     (case tu_lrz_begin_resumed_renderpass (cmd\<lparr>lrz := s\<rparr>) cvs of
        Inl e \<Rightarrow> Inl e | Inr cmd' \<Rightarrow> Inr (lrz cmd'))"
| "lrz_op_step s (OP_BEGIN_SECONDARY_CMDBUF cmd) =
     (case tu_lrz_begin_secondary_cmdbuf (cmd\<lparr>lrz := s\<rparr>) of
        Inl e \<Rightarrow> Inl e | Inr cmd' \<Rightarrow> Inr (lrz cmd'))"
| "lrz_op_step s (OP_DRAW cmd a) =
     (case tu6_calculate_lrz_state (cmd\<lparr>lrz := s\<rparr>) a of
        Inl e \<Rightarrow> Inl e | Inr (c, cmd') \<Rightarrow> Inr (lrz cmd'))"
| "lrz_op_step s (OP_DISABLE_DURING_RENDERPASS cmd) =
     Inr (lrz (fst (tu_lrz_disable_during_renderpass (cmd\<lparr>lrz := s\<rparr>))))"

fun lrz_run :: "tu_lrz_state \<Rightarrow> lrz_op list \<Rightarrow> lrz_error + tu_lrz_state" where
  "lrz_run s [] = Inr s"
| "lrz_run s (op # ops) =
     (case lrz_op_step s op of Inl e \<Rightarrow> Inl e | Inr s' \<Rightarrow> lrz_run s' ops)"

section \<open>Conditions of the decision engine\<close>

text \<open>
  The draw passes the three early returns of \<^verbatim>\<open>tu6_calculate_lrz_state\<close>: the
  tracker is valid, there is a depth attachment, the depth test is on, the
  \<^verbatim>\<open>TU_DEBUG_NOLRZ\<close> override is off, and the direction is tracked by the device
  or the attachments are known.
\<close>

definition draw_active :: "tu_cmd_buffer \<Rightarrow> 32 word \<Rightarrow> bool" where
  "draw_active cmd a =
     (valid (lrz cmd) \<and> a \<noteq> VK_ATTACHMENT_UNUSED \<and> rb_depth_z_test_enable cmd \<and>
      \<not> debug_nolrz cmd \<and> (gpu_dir_tracking (lrz cmd) \<or> attachments cmd \<noteq> None))"

text \<open>The directive after the initial assignments, given the computed \<open>lrz_write\<close>.\<close>

definition initial_cntl :: "tu_cmd_buffer \<Rightarrow> bool \<Rightarrow> A6XX_GRAS_LRZ_CNTL" where
  "initial_cntl cmd w =
     A6XX_GRAS_LRZ_CNTL_zero\<lparr>enable := True, lrz_write := w,
       z_test_enable := rb_depth_z_write_enable cmd,
       z_bounds_enable := rb_depth_z_bounds_enable cmd, fc_enable := fast_clear (lrz cmd),
       dir_write := gpu_dir_tracking (lrz cmd),
       disable_on_wrong_dir := gpu_dir_tracking (lrz cmd)\<rparr>"

text \<open>The candidate direction that the depth switch assigns to a compare op.\<close>

definition lrz_direction_of :: "VkCompareOp \<Rightarrow> tu_lrz_direction" where
  "lrz_direction_of op =
     (if op = VK_COMPARE_OP_GREATER \<or> op = VK_COMPARE_OP_GREATER_OR_EQUAL then TU_LRZ_GREATER
      else if op = VK_COMPARE_OP_LESS \<or> op = VK_COMPARE_OP_LESS_OR_EQUAL then TU_LRZ_LESS
      else TU_LRZ_UNKNOWN)"

text \<open>The recorded direction and the candidate of the compare op are both known and differ.\<close>

definition direction_flip :: "tu_lrz_direction \<Rightarrow> VkCompareOp \<Rightarrow> bool" where
  "direction_flip prev op =
     (prev \<noteq> TU_LRZ_UNKNOWN \<and> lrz_direction_of op \<noteq> TU_LRZ_UNKNOWN \<and> prev \<noteq> lrz_direction_of op)"

text \<open>
  \<^verbatim>\<open>tu6_stencil_op_lrz_allowed\<close> answers \<^verbatim>\<open>false\<close> for the front or for the back
  face (its answer does not depend on the directive it is given).
\<close>

definition stencil_not_allowed :: "tu_cmd_buffer \<Rightarrow> bool" where
  "stencil_not_allowed cmd =
     (\<not> snd (tu6_stencil_op_lrz_allowed A6XX_GRAS_LRZ_CNTL_zero
               (rb_stencil_func cmd) (stencil_front_write cmd)) \<or>
      \<not> snd (tu6_stencil_op_lrz_allowed A6XX_GRAS_LRZ_CNTL_zero
               (rb_stencil_func_bf cmd) (stencil_back_write cmd)))"

text \<open>
  The value of \<^verbatim>\<open>disable_lrz\<close> at the end of an active draw, as a condition on
  the draw: the fragment-shader flag with an unknown direction under device tracking,
  or a depth write together with \<^verbatim>\<open>ALWAYS\<close>/\<^verbatim>\<open>NOT_EQUAL\<close>, a direction flip or a
  stencil face that is not allowed. That the code computes exactly this is lemma
  \<open>calc_valid\<close> below.
\<close>

definition full_invalidate :: "tu_cmd_buffer \<Rightarrow> bool" where
  "full_invalidate cmd =
     ((force_disable_lrz (pipeline cmd) \<and> prev_direction (lrz cmd) = TU_LRZ_UNKNOWN \<and>
       gpu_dir_tracking (lrz cmd)) \<or>
      (rb_depth_z_write_enable cmd \<and>
        (rb_depth_zfunc cmd = VK_COMPARE_OP_ALWAYS \<or> rb_depth_zfunc cmd = VK_COMPARE_OP_NOT_EQUAL \<or>
         direction_flip (prev_direction (lrz cmd)) (rb_depth_zfunc cmd) \<or>
         (rb_stencil_enable cmd \<and> stencil_not_allowed cmd))))"

text \<open>
  The value of \<^verbatim>\<open>temporary_disable_lrz\<close> at the end of an active draw that did not
  set \<^verbatim>\<open>disable_lrz\<close>.
\<close>

definition temporary_disable :: "tu_cmd_buffer \<Rightarrow> bool" where
  "temporary_disable cmd =
     ((force_disable_lrz (pipeline cmd) \<and>
        (prev_direction (lrz cmd) \<noteq> TU_LRZ_UNKNOWN \<or> \<not> gpu_dir_tracking (lrz cmd))) \<or>
      rb_depth_zfunc cmd = VK_COMPARE_OP_EQUAL \<or> rb_depth_zfunc cmd = VK_COMPARE_OP_NEVER \<or>
      (\<not> rb_depth_z_write_enable cmd \<and>
        (rb_depth_zfunc cmd = VK_COMPARE_OP_ALWAYS \<or> rb_depth_zfunc cmd = VK_COMPARE_OP_NOT_EQUAL \<or>
         direction_flip (prev_direction (lrz cmd)) (rb_depth_zfunc cmd) \<or>
         (rb_stencil_enable cmd \<and> stencil_not_allowed cmd))))"

section \<open>Concrete inputs\<close>

text \<open>
  A depth image with an LRZ buffer and a fast-clear buffer, its view, a depth attachment
  cleared at render-pass begin, a pipeline with no flag set, a valid tracker under
  device-side tracking with no direction recorded yet, and a command buffer of a
  device with direction tracking drawing with \<^verbatim>\<open>LESS\<close> and depth write.
\<close>

definition ex_image :: tu_image where
  "ex_image = \<lparr>iova = 0x100000, lrz_offset = 0x4000, lrz_fc_offset = 0x8000,
                lrz_pitch = 64, lrz_height = 32, lrz_fc_size = 512\<rparr>"

definition ex_view :: tu_image_view where
  "ex_view = \<lparr>image_f = ex_image, GRAS_LRZ_DEPTH_VIEW = 0x00010000\<rparr>"

definition ex_att :: tu_render_pass_attachment where
  "ex_att = \<lparr>format_has_depth = True, format_nr_components = 1,
              clear_mask = VK_IMAGE_ASPECT_DEPTH_BIT, load = False\<rparr>"

definition ex_pipeline :: tu_pipeline where
  "ex_pipeline = \<lparr>force_disable_lrz = False, force_disable_write = False,
     dynamic_logic_op = False, dynamic_blend_enable = False, dynamic_blend = False,
     dynamic_color_write_enable = False, blend_num_rts = 0\<rparr>"

definition ex_lrz :: tu_lrz_state where
  "ex_lrz = \<lparr>image_view = Some ex_view, valid = True, enabled = False, fast_clear = True,
     gpu_dir_tracking = True, reuse_previous_state = False,
     prev_direction = TU_LRZ_UNKNOWN,
     depth_clear_value = \<lparr>depth = 0x3F800000, stencil = 0\<rparr>\<rparr>"

definition ex_cmd :: tu_cmd_buffer where
  "ex_cmd = \<lparr>has_lrz_dir_tracking = True, lrz_track_quirk = False, debug_nolrz = False,
     pass_attachments = [ex_att], subpass_count = 1,
     subpass_depth_stencil_attachment = 0, subpass_color_attachments = [],
     attachments = Some [ex_view], pipeline = ex_pipeline,
     rb_depth_z_test_enable = True, rb_depth_z_write_enable = True,
     rb_depth_z_bounds_enable = False, rb_depth_zfunc = VK_COMPARE_OP_LESS,
     rb_stencil_enable = False, rb_stencil_func = VK_COMPARE_OP_ALWAYS,
     rb_stencil_func_bf = VK_COMPARE_OP_ALWAYS,
     stencil_front_write = False, stencil_back_write = False,
     logic_op_enabled = False, rop_reads_dst = False, blend_enable = False,
     rb_mrt_component_enable = [], color_write_enable = 0, dirty_lrz = False,
     lrz = ex_lrz\<rparr>"

text \<open>The same attachment with \<^verbatim>\<open>LOAD_OP_DONT_CARE\<close>: neither cleared nor loaded.\<close>

definition ex_att_dont_care :: tu_render_pass_attachment where
  "ex_att_dont_care = \<lparr>format_has_depth = True, format_nr_components = 1,
                        clear_mask = 0, load = False\<rparr>"

definition ex_cmd_dont_care :: tu_cmd_buffer where
  "ex_cmd_dont_care = ex_cmd\<lparr>pass_attachments := [ex_att_dont_care]\<rparr>"

text \<open>
  A device without direction tracking: the tracker is valid with the direction tracked
  on the CPU only, and the bound pipeline flags fragment-shader side effects
  (\<^verbatim>\<open>TU_LRZ_FORCE_DISABLE_LRZ\<close>).
\<close>

definition ex_cmd_fs_cpu :: tu_cmd_buffer where
  "ex_cmd_fs_cpu =
     ex_cmd\<lparr>has_lrz_dir_tracking := False,
            pipeline := ex_pipeline\<lparr>force_disable_lrz := True\<rparr>,
            lrz := ex_lrz\<lparr>gpu_dir_tracking := False\<rparr>\<rparr>"

text \<open>
  A draw with stencil test enabled, front compare op \<^verbatim>\<open>ALWAYS\<close> and front stencil
  write enabled, on the device-tracked tracker, with depth test \<^verbatim>\<open>LESS\<close> and depth
  write.
\<close>

definition ex_cmd_stencil :: tu_cmd_buffer where
  "ex_cmd_stencil = ex_cmd\<lparr>rb_stencil_enable := True, stencil_front_write := True\<rparr>"

text \<open>The same attachment with \<^verbatim>\<open>LOAD_OP_LOAD\<close>: not cleared, loaded.\<close>

definition ex_att_load :: tu_render_pass_attachment where
  "ex_att_load = \<lparr>format_has_depth = True, format_nr_components = 1,
                   clear_mask = 0, load = True\<rparr>"

definition ex_cmd_load :: tu_cmd_buffer where
  "ex_cmd_load = ex_cmd\<lparr>pass_attachments := [ex_att_load]\<rparr>"

section \<open>The blocks of the decision engine\<close>

lemma stencil_allowed_snd:
  "snd (tu6_stencil_op_lrz_allowed c f w) = (f = VK_COMPARE_OP_NEVER \<or> \<not> w)"
  by (cases f) simp_all

lemma stencil_allowed_fst:
  "fst (tu6_stencil_op_lrz_allowed c f w) =
     (if f = VK_COMPARE_OP_ALWAYS then c else c\<lparr>lrz_write := False\<rparr>)"
  by (cases f) simp_all

lemma stencil_block_flags:
  assumes "stencil_block cmd zw c d t = (c2, d2, t2)"
  shows "d2 = (d \<or> (stencil_not_allowed cmd \<and> zw))"
    and "t2 = (t \<or> (stencil_not_allowed cmd \<and> \<not> zw))"
    and "c2 = c\<lparr>lrz_write := lrz_write c2\<rparr>"
proof -
  obtain c1 fa where
    f: "tu6_stencil_op_lrz_allowed c (rb_stencil_func cmd) (stencil_front_write cmd) = (c1, fa)"
    by fastforce
  obtain c1' ba where
    b: "tu6_stencil_op_lrz_allowed c1 (rb_stencil_func_bf cmd) (stencil_back_write cmd) = (c1', ba)"
    by fastforce
  from f have fa: "fa = (rb_stencil_func cmd = VK_COMPARE_OP_NEVER \<or> \<not> stencil_front_write cmd)"
    and c1: "c1 = (if rb_stencil_func cmd = VK_COMPARE_OP_ALWAYS then c else c\<lparr>lrz_write := False\<rparr>)"
    using stencil_allowed_snd[of c "rb_stencil_func cmd" "stencil_front_write cmd"]
          stencil_allowed_fst[of c "rb_stencil_func cmd" "stencil_front_write cmd"] by simp_all
  from b have ba: "ba = (rb_stencil_func_bf cmd = VK_COMPARE_OP_NEVER \<or> \<not> stencil_back_write cmd)"
    and c1': "c1' = (if rb_stencil_func_bf cmd = VK_COMPARE_OP_ALWAYS then c1
                     else c1\<lparr>lrz_write := False\<rparr>)"
    using stencil_allowed_snd[of c1 "rb_stencil_func_bf cmd" "stencil_back_write cmd"]
          stencil_allowed_fst[of c1 "rb_stencil_func_bf cmd" "stencil_back_write cmd"] by simp_all
  from assms f b fa ba show "d2 = (d \<or> (stencil_not_allowed cmd \<and> zw))"
    by (auto simp: stencil_block_def stencil_not_allowed_def stencil_allowed_snd split: if_splits)
  from assms f b fa ba show "t2 = (t \<or> (stencil_not_allowed cmd \<and> \<not> zw))"
    by (auto simp: stencil_block_def stencil_not_allowed_def stencil_allowed_snd split: if_splits)
  from assms f b c1 c1' show "c2 = c\<lparr>lrz_write := lrz_write c2\<rparr>"
    by (auto simp: stencil_block_def split: if_splits)
qed

lemma depth_compare_op_switch_result:
  assumes "depth_compare_op_switch op zw c d t = Inr (c1, d1, t1, ld)"
  shows "d1 = (d \<or> (zw \<and> (op = VK_COMPARE_OP_ALWAYS \<or> op = VK_COMPARE_OP_NOT_EQUAL)))"
    and "t1 = (t \<or> op = VK_COMPARE_OP_EQUAL \<or> op = VK_COMPARE_OP_NEVER \<or>
               (\<not> zw \<and> (op = VK_COMPARE_OP_ALWAYS \<or> op = VK_COMPARE_OP_NOT_EQUAL)))"
    and "ld = lrz_direction_of op"
    and "enable c1 = enable c" and "disable_on_wrong_dir c1 = disable_on_wrong_dir c"
    and "op \<noteq> VK_COMPARE_OP_MAX_ENUM"
  using assms by (cases op; auto simp: lrz_direction_of_def split: if_splits)+

lemma depth_compare_op_switch_returns:
  "op \<noteq> VK_COMPARE_OP_MAX_ENUM \<Longrightarrow> \<exists>r. depth_compare_op_switch op zw c d t = Inr r"
  by (cases op) auto

lemma fs_block_eq:
  "fs_block cmd =
     (force_disable_lrz (pipeline cmd) \<and> prev_direction (lrz cmd) = TU_LRZ_UNKNOWN \<and>
        gpu_dir_tracking (lrz cmd),
      force_disable_lrz (pipeline cmd) \<and>
        (prev_direction (lrz cmd) \<noteq> TU_LRZ_UNKNOWN \<or> \<not> gpu_dir_tracking (lrz cmd)))"
  by (simp add: fs_block_def)

lemma direction_change_block_result:
  assumes "direction_change_block cmd (lrz_direction_of op) zw d t = (d2, t2)"
  shows "d2 = (d \<or> (zw \<and> direction_flip (prev_direction (lrz cmd)) op))"
    and "t2 = (t \<or> (\<not> zw \<and> direction_flip (prev_direction (lrz cmd)) op))"
  using assms by (auto simp: direction_change_block_def direction_flip_def split: if_splits)

lemma finish_block_result:
  assumes "finish_block cmd1 c2 d t = (c, cmd')" and "valid (lrz cmd1)"
  shows "valid (lrz cmd') = (\<not> d)"
    and "d \<Longrightarrow> gpu_dir_tracking (lrz cmd1) \<Longrightarrow> enable c \<and> dir c = LRZ_DIR_INVALID \<and>
           disable_on_wrong_dir c = disable_on_wrong_dir c2"
    and "d \<Longrightarrow> \<not> gpu_dir_tracking (lrz cmd1) \<Longrightarrow> c = A6XX_GRAS_LRZ_CNTL_zero"
    and "\<not> d \<Longrightarrow> t \<Longrightarrow> c = A6XX_GRAS_LRZ_CNTL_zero"
    and "\<not> d \<Longrightarrow> \<not> t \<Longrightarrow> enable c2 \<Longrightarrow> c = c2"
    and "cmd'\<lparr>lrz := (lrz cmd')\<lparr>valid := valid (lrz cmd1), enabled := enabled (lrz cmd1)\<rparr>\<rparr> = cmd1"
  using assms by (auto simp: finish_block_def Let_def split: if_splits)

section \<open>The decision engine as a whole\<close>

text \<open>A draw that does not pass the early returns gets the empty directive and changes nothing.\<close>

lemma calc_inactive:
  "\<not> draw_active cmd a \<Longrightarrow> tu6_calculate_lrz_state cmd a = Inr (A6XX_GRAS_LRZ_CNTL_zero, cmd)"
  by (cases "valid (lrz cmd)") (auto simp: tu6_calculate_lrz_state_def draw_active_def Let_def)

text \<open>A draw that passes them and returns went through every block.\<close>

lemma calc_activeE:
  assumes "draw_active cmd a" and "tu6_calculate_lrz_state cmd a = Inr (c, cmd')"
  obtains w c1 d1 t1 ld d2 t2 cmd1 c2 d t where
    "dynamic_state_lrz_write cmd
       (rb_depth_z_write_enable cmd \<and> \<not> force_disable_write (pipeline cmd)) = Inr w"
    "depth_compare_op_switch (rb_depth_zfunc cmd) (rb_depth_z_write_enable cmd) (initial_cntl cmd w)
       (fst (fs_block cmd)) (snd (fs_block cmd)) = Inr (c1, d1, t1, ld)"
    "direction_change_block cmd ld (rb_depth_z_write_enable cmd) d1 t1 = (d2, t2)"
    "cmd1 = (if rb_depth_z_write_enable cmd \<and> ld \<noteq> TU_LRZ_UNKNOWN
             then cmd\<lparr>lrz := (lrz cmd)\<lparr>prev_direction := ld\<rparr>\<rparr> else cmd)"
    "(if \<not> d2 \<and> rb_stencil_enable cmd
      then stencil_block cmd1 (rb_depth_z_write_enable cmd) c1 d2 t2 else (c1, d2, t2)) = (c2, d, t)"
    "finish_block cmd1 c2 d t = (c, cmd')"
  using assms
  unfolding tu6_calculate_lrz_state_def draw_active_def initial_cntl_def
  by (auto simp: Let_def split: sum.splits prod.splits if_splits)

text \<open>
  What an active draw that returns does: whether the tracker stays valid, which
  directive it gets, the recorded direction afterwards, and that nothing else changes.
\<close>

lemma calc_active_facts:
  assumes act: "draw_active cmd a"
    and res: "tu6_calculate_lrz_state cmd a = Inr (c, cmd')"
  shows calc_valid: "valid (lrz cmd') = (\<not> full_invalidate cmd)"
    and calc_explicit: "full_invalidate cmd \<Longrightarrow> gpu_dir_tracking (lrz cmd) \<Longrightarrow>
           enable c \<and> dir c = LRZ_DIR_INVALID \<and> disable_on_wrong_dir c"
    and calc_cpu_invalid: "full_invalidate cmd \<Longrightarrow> \<not> gpu_dir_tracking (lrz cmd) \<Longrightarrow>
           c = A6XX_GRAS_LRZ_CNTL_zero"
    and calc_temporary: "\<not> full_invalidate cmd \<Longrightarrow> temporary_disable cmd \<Longrightarrow>
           c = A6XX_GRAS_LRZ_CNTL_zero"
    and calc_enabled: "\<not> full_invalidate cmd \<Longrightarrow> \<not> temporary_disable cmd \<Longrightarrow> enable c"
    and calc_direction: "prev_direction (lrz cmd') =
           (if rb_depth_z_write_enable cmd \<and> lrz_direction_of (rb_depth_zfunc cmd) \<noteq> TU_LRZ_UNKNOWN
            then lrz_direction_of (rb_depth_zfunc cmd) else prev_direction (lrz cmd))"
    and calc_frame: "cmd'\<lparr>lrz := (lrz cmd')\<lparr>valid := valid (lrz cmd),
           enabled := enabled (lrz cmd), prev_direction := prev_direction (lrz cmd)\<rparr>\<rparr> = cmd"
    and calc_op: "rb_depth_zfunc cmd \<noteq> VK_COMPARE_OP_MAX_ENUM"
proof -
  let ?zw = "rb_depth_z_write_enable cmd"
  let ?op = "rb_depth_zfunc cmd"
  from act res obtain w c1 d1 t1 ld d2 t2 cmd1 c2 d t where
    sw: "depth_compare_op_switch ?op ?zw (initial_cntl cmd w) (fst (fs_block cmd)) (snd (fs_block cmd))
           = Inr (c1, d1, t1, ld)" and
    dc: "direction_change_block cmd ld ?zw d1 t1 = (d2, t2)" and
    cmd1: "cmd1 = (if ?zw \<and> ld \<noteq> TU_LRZ_UNKNOWN
             then cmd\<lparr>lrz := (lrz cmd)\<lparr>prev_direction := ld\<rparr>\<rparr> else cmd)" and
    st: "(if \<not> d2 \<and> rb_stencil_enable cmd
      then stencil_block cmd1 ?zw c1 d2 t2 else (c1, d2, t2)) = (c2, d, t)" and
    fin: "finish_block cmd1 c2 d t = (c, cmd')"
    by (rule calc_activeE)
  note s = depth_compare_op_switch_result[OF sw]
  have ld: "ld = lrz_direction_of ?op" by (rule s(3))
  note dcr = direction_change_block_result[OF dc[unfolded ld]]
  have d1: "d1 = ((force_disable_lrz (pipeline cmd) \<and> prev_direction (lrz cmd) = TU_LRZ_UNKNOWN \<and>
       gpu_dir_tracking (lrz cmd)) \<or>
       (?zw \<and> (?op = VK_COMPARE_OP_ALWAYS \<or> ?op = VK_COMPARE_OP_NOT_EQUAL)))"
    using s(1) by (simp add: fs_block_eq)
  have t1: "t1 = ((force_disable_lrz (pipeline cmd) \<and>
        (prev_direction (lrz cmd) \<noteq> TU_LRZ_UNKNOWN \<or> \<not> gpu_dir_tracking (lrz cmd))) \<or>
       ?op = VK_COMPARE_OP_EQUAL \<or> ?op = VK_COMPARE_OP_NEVER \<or>
               (\<not> ?zw \<and> (?op = VK_COMPARE_OP_ALWAYS \<or> ?op = VK_COMPARE_OP_NOT_EQUAL)))"
    using s(2) by (simp add: fs_block_eq)
  have sna: "stencil_not_allowed cmd1 = stencil_not_allowed cmd"
    by (simp add: cmd1 stencil_not_allowed_def)
  have d: "d = (d2 \<or> (rb_stencil_enable cmd \<and> stencil_not_allowed cmd \<and> ?zw))"
  proof (cases "\<not> d2 \<and> rb_stencil_enable cmd")
    case True
    with st have "stencil_block cmd1 ?zw c1 d2 t2 = (c2, d, t)" by simp
    from stencil_block_flags(1)[OF this] True sna show ?thesis by simp
  next
    case False
    with st show ?thesis by auto
  qed
  have t: "\<not> d \<Longrightarrow> t = (t2 \<or> (rb_stencil_enable cmd \<and> stencil_not_allowed cmd \<and> \<not> ?zw))"
  proof (cases "\<not> d2 \<and> rb_stencil_enable cmd")
    case True
    with st have "stencil_block cmd1 ?zw c1 d2 t2 = (c2, d, t)" by simp
    from stencil_block_flags(2)[OF this] True sna show ?thesis by simp
  next
    case False
    assume "\<not> d"
    with False st d show ?thesis by auto
  qed
  have c2: "enable c2 = enable c1 \<and> disable_on_wrong_dir c2 = disable_on_wrong_dir c1"
  proof (cases "\<not> d2 \<and> rb_stencil_enable cmd")
    case True
    with st have "stencil_block cmd1 ?zw c1 d2 t2 = (c2, d, t)" by simp
    from stencil_block_flags(3)[OF this] have "c2 = c1\<lparr>lrz_write := lrz_write c2\<rparr>" .
    then have "enable c2 = enable (c1\<lparr>lrz_write := lrz_write c2\<rparr>)"
      and "disable_on_wrong_dir c2 = disable_on_wrong_dir (c1\<lparr>lrz_write := lrz_write c2\<rparr>)"
      by simp_all
    then show ?thesis by simp
  next
    case False
    with st show ?thesis by auto
  qed
  have en: "enable c2" and dw: "disable_on_wrong_dir c2 = gpu_dir_tracking (lrz cmd)"
    using c2 s(4) s(5) by (simp_all add: initial_cntl_def A6XX_GRAS_LRZ_CNTL_zero_def)
  have v1: "valid (lrz cmd1)" and g1: "gpu_dir_tracking (lrz cmd1) = gpu_dir_tracking (lrz cmd)"
    using act by (simp_all add: cmd1 draw_active_def)
  note f = finish_block_result[OF fin v1]
  have full: "full_invalidate cmd = d"
    unfolding full_invalidate_def d dcr(1) d1 by blast
  show "valid (lrz cmd') = (\<not> full_invalidate cmd)" using f(1) full by simp
  show "enable c \<and> dir c = LRZ_DIR_INVALID \<and> disable_on_wrong_dir c"
    if "full_invalidate cmd" "gpu_dir_tracking (lrz cmd)"
    using that f(2) full g1 dw by simp
  show "c = A6XX_GRAS_LRZ_CNTL_zero" if "full_invalidate cmd" "\<not> gpu_dir_tracking (lrz cmd)"
    using that f(3) full g1 by simp
  have temp: "\<not> d \<Longrightarrow> temporary_disable cmd = t"
    unfolding temporary_disable_def using t dcr(2) t1 d d1 dcr(1) by blast
  show "c = A6XX_GRAS_LRZ_CNTL_zero" if "\<not> full_invalidate cmd" "temporary_disable cmd"
    using that f(4) full temp by simp
  show "enable c" if "\<not> full_invalidate cmd" "\<not> temporary_disable cmd"
    using that f(5) full temp en by simp
  let ?r = "cmd'\<lparr>lrz := (lrz cmd')\<lparr>valid := valid (lrz cmd1), enabled := enabled (lrz cmd1)\<rparr>\<rparr>"
  have r: "?r = cmd1" by (rule f(6))
  have "prev_direction (lrz ?r) = prev_direction (lrz cmd1)" by (simp only: r)
  then have pd: "prev_direction (lrz cmd') = prev_direction (lrz cmd1)" by simp
  show "prev_direction (lrz cmd') =
           (if ?zw \<and> lrz_direction_of ?op \<noteq> TU_LRZ_UNKNOWN
            then lrz_direction_of ?op else prev_direction (lrz cmd))"
    by (simp add: pd cmd1 ld)
  have "?r\<lparr>lrz := (lrz ?r)\<lparr>prev_direction := prev_direction (lrz cmd)\<rparr>\<rparr> =
        cmd1\<lparr>lrz := (lrz cmd1)\<lparr>prev_direction := prev_direction (lrz cmd)\<rparr>\<rparr>"
    by (simp only: r)
  then show "cmd'\<lparr>lrz := (lrz cmd')\<lparr>valid := valid (lrz cmd),
           enabled := enabled (lrz cmd), prev_direction := prev_direction (lrz cmd)\<rparr>\<rparr> = cmd"
    by (simp add: cmd1 split: if_splits)
  show "?op \<noteq> VK_COMPARE_OP_MAX_ENUM" by (rule s(6))
qed

text \<open>The frame of every call that returns: only \<open>valid\<close>, \<open>enabled\<close> and \<open>prev_direction\<close> can change.\<close>

lemma calc_frame_all:
  assumes "tu6_calculate_lrz_state cmd a = Inr (c, cmd')"
  shows "cmd'\<lparr>lrz := (lrz cmd')\<lparr>valid := valid (lrz cmd),
           enabled := enabled (lrz cmd), prev_direction := prev_direction (lrz cmd)\<rparr>\<rparr> = cmd"
proof (cases "draw_active cmd a")
  case True
  then show ?thesis using assms by (rule calc_frame)
next
  case False
  with assms have "cmd' = cmd" by (simp add: calc_inactive)
  then show ?thesis by simp
qed

lemma calc_unchanged_fields:
  assumes "tu6_calculate_lrz_state cmd a = Inr (c, cmd')"
  shows "gpu_dir_tracking (lrz cmd') = gpu_dir_tracking (lrz cmd)"
    and "reuse_previous_state (lrz cmd') = reuse_previous_state (lrz cmd)"
    and "fast_clear (lrz cmd') = fast_clear (lrz cmd)"
    and "image_view (lrz cmd') = image_view (lrz cmd)"
    and "depth_clear_value (lrz cmd') = depth_clear_value (lrz cmd)"
proof -
  let ?r = "cmd'\<lparr>lrz := (lrz cmd')\<lparr>valid := valid (lrz cmd),
           enabled := enabled (lrz cmd), prev_direction := prev_direction (lrz cmd)\<rparr>\<rparr>"
  have r: "?r = cmd" using assms by (rule calc_frame_all)
  have "gpu_dir_tracking (lrz ?r) = gpu_dir_tracking (lrz cmd)" by (simp only: r)
  then show "gpu_dir_tracking (lrz cmd') = gpu_dir_tracking (lrz cmd)" by simp
  have "reuse_previous_state (lrz ?r) = reuse_previous_state (lrz cmd)" by (simp only: r)
  then show "reuse_previous_state (lrz cmd') = reuse_previous_state (lrz cmd)" by simp
  have "fast_clear (lrz ?r) = fast_clear (lrz cmd)" by (simp only: r)
  then show "fast_clear (lrz cmd') = fast_clear (lrz cmd)" by simp
  have "image_view (lrz ?r) = image_view (lrz cmd)" by (simp only: r)
  then show "image_view (lrz cmd') = image_view (lrz cmd)" by simp
  have "depth_clear_value (lrz ?r) = depth_clear_value (lrz cmd)" by (simp only: r)
  then show "depth_clear_value (lrz cmd') = depth_clear_value (lrz cmd)" by simp
qed

text \<open>
  The call returns a directive whenever the compare op is one of the eight operators
  and the colour attachment loop, if it runs, stays inside its arrays.
\<close>

lemma dynamic_state_lrz_write_returns:
  assumes "dynamic_blend (pipeline cmd) \<longrightarrow>
           (\<exists>p. color_write_mask_partial (pass_attachments cmd) (rb_mrt_component_enable cmd) 0
             (subpass_color_attachments cmd) = Inr p)"
  shows "\<exists>w. dynamic_state_lrz_write cmd w0 = Inr w"
  using assms by (auto simp: dynamic_state_lrz_write_def Let_def)

lemma calc_returns:
  assumes "rb_depth_zfunc cmd \<noteq> VK_COMPARE_OP_MAX_ENUM"
    and "dynamic_blend (pipeline cmd) \<longrightarrow>
           (\<exists>p. color_write_mask_partial (pass_attachments cmd) (rb_mrt_component_enable cmd) 0
             (subpass_color_attachments cmd) = Inr p)"
  shows "\<exists>c cmd'. tu6_calculate_lrz_state cmd a = Inr (c, cmd')"
proof -
  from dynamic_state_lrz_write_returns[OF assms(2)] obtain w where
    w: "dynamic_state_lrz_write cmd
          (rb_depth_z_write_enable cmd \<and> \<not> force_disable_write (pipeline cmd)) = Inr w"
    by blast
  obtain d0 t0 where fs: "fs_block cmd = (d0, t0)" by fastforce
  from depth_compare_op_switch_returns[OF assms(1)] obtain c1 d1 t1 ld where
    sw: "depth_compare_op_switch (rb_depth_zfunc cmd) (rb_depth_z_write_enable cmd)
           (A6XX_GRAS_LRZ_CNTL_zero\<lparr>enable := True, lrz_write := w,
              z_test_enable := rb_depth_z_write_enable cmd,
              z_bounds_enable := rb_depth_z_bounds_enable cmd, fc_enable := fast_clear (lrz cmd),
              dir_write := gpu_dir_tracking (lrz cmd),
              disable_on_wrong_dir := gpu_dir_tracking (lrz cmd)\<rparr>) d0 t0 = Inr (c1, d1, t1, ld)"
    by (metis prod_cases4)
  show ?thesis
    unfolding tu6_calculate_lrz_state_def
    by (simp add: Let_def w fs sw split: prod.splits)
qed

text \<open>The definitions that evaluating the decision engine on a concrete draw unfolds.\<close>

lemmas draw_eval =
  tu6_calculate_lrz_state_def dynamic_state_lrz_write_def fs_block_def
  direction_change_block_def stencil_block_def finish_block_def
  A6XX_GRAS_LRZ_CNTL_zero_def VK_ATTACHMENT_UNUSED_def
  ex_cmd_def ex_lrz_def ex_pipeline_def


section \<open>Claims about the per-draw decision engine\<close>

lemma draw_step_invalid: "\<not> valid s \<Longrightarrow> draw_step s d = Inr (A6XX_GRAS_LRZ_CNTL_zero, s)"
  by (simp add: draw_step_def calc_inactive draw_active_def)

lemma lrz_pass_trace_invalid:
  "\<not> valid s \<Longrightarrow> x \<in> set (lrz_pass_trace s ds) \<Longrightarrow> \<not> valid x"
  by (induction ds) (auto simp: draw_step_invalid)

text \<open>
  C1 (monotonic invalidation). Along every sequence of per-draw calls of the decision
  engine in one render pass, once the tracker observed at some draw has
  \<open>valid = False\<close>, the tracker observed at every later draw (and after the last draw)
  has \<open>valid = False\<close> as well: no call of \<^verbatim>\<open>tu6_calculate_lrz_state\<close> sets
  \<open>valid\<close> from false to true.
\<close>

theorem monotonic_invalidation:
  "i \<le> j \<Longrightarrow> j < length (lrz_pass_trace s ds) \<Longrightarrow>
   \<not> valid (lrz_pass_trace s ds ! i) \<Longrightarrow> \<not> valid (lrz_pass_trace s ds ! j)"
proof (induction ds arbitrary: s i j)
  case Nil
  then show ?case by simp
next
  case (Cons d ds)
  show ?case
  proof (cases i)
    case 0
    with Cons.prems have "\<not> valid s" by simp
    moreover have "lrz_pass_trace s (d # ds) ! j \<in> set (lrz_pass_trace s (d # ds))"
      using Cons.prems(2) nth_mem by blast
    ultimately show ?thesis by (rule lrz_pass_trace_invalid)
  next
    case (Suc i')
    with Cons.prems obtain j' where j: "j = Suc j'" by (cases j) auto
    show ?thesis
    proof (cases "draw_step s d")
      case (Inl e)
      with Cons.prems j show ?thesis by simp
    next
      case (Inr r)
      obtain c s' where r: "r = (c, s')" by (cases r)
      from Cons.prems Suc j Inr r
      have "i' \<le> j'" "j' < length (lrz_pass_trace s' ds)" "\<not> valid (lrz_pass_trace s' ds ! i')"
        by simp_all
      from Cons.IH[OF this] show ?thesis using Inr r j by simp
    qed
  qed
qed

text \<open>
  Witness: a \<^verbatim>\<open>LESS\<close> draw with depth write, a \<^verbatim>\<open>GREATER\<close> draw with depth
  write (which invalidates) and a \<^verbatim>\<open>LESS\<close> draw again. The tracker is valid at
  draws 0 and 1 and invalid from then on.
\<close>

theorem monotonic_invalidation_witness:
  "length (lrz_pass_trace ex_lrz
     [(ex_cmd, 0), (ex_cmd\<lparr>rb_depth_zfunc := VK_COMPARE_OP_GREATER\<rparr>, 0), (ex_cmd, 0)]) = 4 \<and>
   valid (lrz_pass_trace ex_lrz
     [(ex_cmd, 0), (ex_cmd\<lparr>rb_depth_zfunc := VK_COMPARE_OP_GREATER\<rparr>, 0), (ex_cmd, 0)] ! 1) \<and>
   \<not> valid (lrz_pass_trace ex_lrz
     [(ex_cmd, 0), (ex_cmd\<lparr>rb_depth_zfunc := VK_COMPARE_OP_GREATER\<rparr>, 0), (ex_cmd, 0)] ! 2) \<and>
   \<not> valid (lrz_pass_trace ex_lrz
     [(ex_cmd, 0), (ex_cmd\<lparr>rb_depth_zfunc := VK_COMPARE_OP_GREATER\<rparr>, 0), (ex_cmd, 0)] ! 3)"
proof -
  let ?T = "lrz_pass_trace ex_lrz
     [(ex_cmd, 0), (ex_cmd\<lparr>rb_depth_zfunc := VK_COMPARE_OP_GREATER\<rparr>, 0), (ex_cmd, 0)]"
  have len: "length ?T = 4" by (simp add: draw_step_def draw_eval)
  have v1: "valid (?T ! 1)" by (simp add: draw_step_def draw_eval)
  have v2: "\<not> valid (?T ! 2)" by (simp add: draw_step_def draw_eval)
  have le: "(2::nat) \<le> 3" by simp
  have lt: "3 < length ?T" using len by simp
  from monotonic_invalidation[OF le lt v2] have "\<not> valid (?T ! 3)" .
  with len v1 v2 show ?thesis by blast
qed

text \<open>
  C2 (direction flip triggers invalidate-or-suspend). For a draw that reaches the
  direction reconciliation (valid tracker, depth attachment, depth test on, no LRZ-off
  override, direction tracked by the device or attachments known) with recorded
  direction \<^verbatim>\<open>TU_LRZ_LESS\<close> and depth compare op \<^verbatim>\<open>GREATER\<close>: with depth write
  enabled the tracker is invalid afterwards; with depth write disabled the tracker
  stays valid and the directive has \<open>enable = False\<close>, being the empty directive.
\<close>

theorem direction_flip_invalidate_or_suspend:
  assumes "tu6_calculate_lrz_state cmd a = Inr (c, cmd')"
    and "valid (lrz cmd)" and "a \<noteq> VK_ATTACHMENT_UNUSED" and "rb_depth_z_test_enable cmd"
    and "\<not> debug_nolrz cmd" and "gpu_dir_tracking (lrz cmd) \<or> attachments cmd \<noteq> None"
    and "prev_direction (lrz cmd) = TU_LRZ_LESS"
    and "rb_depth_zfunc cmd = VK_COMPARE_OP_GREATER"
  shows "(rb_depth_z_write_enable cmd \<longrightarrow> \<not> valid (lrz cmd')) \<and>
         (\<not> rb_depth_z_write_enable cmd \<longrightarrow>
            valid (lrz cmd') \<and> \<not> enable c \<and> c = A6XX_GRAS_LRZ_CNTL_zero)"
proof -
  have act: "draw_active cmd a" using assms by (simp add: draw_active_def)
  have flip: "direction_flip (prev_direction (lrz cmd)) (rb_depth_zfunc cmd)"
    using assms by (simp add: direction_flip_def lrz_direction_of_def)
  show ?thesis
  proof (cases "rb_depth_z_write_enable cmd")
    case True
    with flip have "full_invalidate cmd" by (simp add: full_invalidate_def)
    with calc_valid[OF act assms(1)] True show ?thesis by simp
  next
    case False
    then have nf: "\<not> full_invalidate cmd" using assms(7) by (simp add: full_invalidate_def)
    from False flip have td: "temporary_disable cmd" by (simp add: temporary_disable_def)
    from calc_valid[OF act assms(1)] nf calc_temporary[OF act assms(1) nf td] False
    show ?thesis by (simp add: A6XX_GRAS_LRZ_CNTL_zero_def)
  qed
qed

text \<open>
  Witness: recorded direction \<^verbatim>\<open>LESS\<close>, a \<^verbatim>\<open>GREATER\<close> draw with depth write (the
  tracker becomes invalid) and the same draw without depth write (the tracker is
  unchanged and the directive is empty).
\<close>

theorem direction_flip_invalidate_or_suspend_witness:
  "tu6_calculate_lrz_state
     (ex_cmd\<lparr>rb_depth_zfunc := VK_COMPARE_OP_GREATER,
             lrz := ex_lrz\<lparr>prev_direction := TU_LRZ_LESS\<rparr>\<rparr>) 0 =
   Inr (A6XX_GRAS_LRZ_CNTL_zero\<lparr>enable := True, lrz_write := True, greater_f := True,
          fc_enable := True, z_test_enable := True, dir := LRZ_DIR_INVALID, dir_write := True,
          disable_on_wrong_dir := True\<rparr>,
        ex_cmd\<lparr>rb_depth_zfunc := VK_COMPARE_OP_GREATER,
               lrz := ex_lrz\<lparr>valid := False, prev_direction := TU_LRZ_GREATER\<rparr>\<rparr>) \<and>
   \<not> valid (lrz (ex_cmd\<lparr>rb_depth_zfunc := VK_COMPARE_OP_GREATER,
               lrz := ex_lrz\<lparr>valid := False, prev_direction := TU_LRZ_GREATER\<rparr>\<rparr>)) \<and>
   tu6_calculate_lrz_state
     (ex_cmd\<lparr>rb_depth_z_write_enable := False, rb_depth_zfunc := VK_COMPARE_OP_GREATER,
             lrz := ex_lrz\<lparr>prev_direction := TU_LRZ_LESS\<rparr>\<rparr>) 0 =
   Inr (A6XX_GRAS_LRZ_CNTL_zero,
        ex_cmd\<lparr>rb_depth_z_write_enable := False, rb_depth_zfunc := VK_COMPARE_OP_GREATER,
               lrz := ex_lrz\<lparr>prev_direction := TU_LRZ_LESS\<rparr>\<rparr>) \<and>
   valid (lrz (ex_cmd\<lparr>rb_depth_z_write_enable := False, rb_depth_zfunc := VK_COMPARE_OP_GREATER,
               lrz := ex_lrz\<lparr>prev_direction := TU_LRZ_LESS\<rparr>\<rparr>)) \<and>
   \<not> enable A6XX_GRAS_LRZ_CNTL_zero"
proof -
  let ?X1 = "ex_cmd\<lparr>rb_depth_zfunc := VK_COMPARE_OP_GREATER,
                   lrz := ex_lrz\<lparr>prev_direction := TU_LRZ_LESS\<rparr>\<rparr>"
  let ?X2 = "ex_cmd\<lparr>rb_depth_z_write_enable := False, rb_depth_zfunc := VK_COMPARE_OP_GREATER,
                   lrz := ex_lrz\<lparr>prev_direction := TU_LRZ_LESS\<rparr>\<rparr>"
  have r1: "tu6_calculate_lrz_state ?X1 0 =
     Inr (A6XX_GRAS_LRZ_CNTL_zero\<lparr>enable := True, lrz_write := True, greater_f := True,
          fc_enable := True, z_test_enable := True, dir := LRZ_DIR_INVALID, dir_write := True,
          disable_on_wrong_dir := True\<rparr>,
        ex_cmd\<lparr>rb_depth_zfunc := VK_COMPARE_OP_GREATER,
               lrz := ex_lrz\<lparr>valid := False, prev_direction := TU_LRZ_GREATER\<rparr>\<rparr>)"
    by (simp add: draw_eval)
  have r2: "tu6_calculate_lrz_state ?X2 0 = Inr (A6XX_GRAS_LRZ_CNTL_zero, ?X2)"
    by (simp add: draw_eval)
  show ?thesis
    using direction_flip_invalidate_or_suspend[OF r1] direction_flip_invalidate_or_suspend[OF r2] r1 r2
    by (simp add: draw_eval)
qed

text \<open>
  C3 (direction update rule). A call of the decision engine changes the recorded
  direction only when depth write is enabled and the compare op is one of
  \<^verbatim>\<open>GREATER\<close>, \<^verbatim>\<open>GREATER_OR_EQUAL\<close>, \<^verbatim>\<open>LESS\<close>, \<^verbatim>\<open>LESS_OR_EQUAL\<close>; in
  particular a draw with depth write disabled leaves the recorded direction as it was.
\<close>

theorem direction_update_rule:
  assumes "tu6_calculate_lrz_state cmd a = Inr (c, cmd')"
  shows "(prev_direction (lrz cmd') \<noteq> prev_direction (lrz cmd) \<longrightarrow>
            rb_depth_z_write_enable cmd \<and>
            (rb_depth_zfunc cmd = VK_COMPARE_OP_GREATER \<or>
             rb_depth_zfunc cmd = VK_COMPARE_OP_GREATER_OR_EQUAL \<or>
             rb_depth_zfunc cmd = VK_COMPARE_OP_LESS \<or>
             rb_depth_zfunc cmd = VK_COMPARE_OP_LESS_OR_EQUAL)) \<and>
         (\<not> rb_depth_z_write_enable cmd \<longrightarrow>
            prev_direction (lrz cmd') = prev_direction (lrz cmd))"
proof (cases "draw_active cmd a")
  case True
  from calc_direction[OF True assms] show ?thesis
    by (auto simp: lrz_direction_of_def split: if_splits)
next
  case False
  with assms have "cmd' = cmd" by (simp add: calc_inactive)
  then show ?thesis by simp
qed

text \<open>
  Witness: with no direction recorded, a \<^verbatim>\<open>LESS\<close> draw with depth write records
  \<^verbatim>\<open>TU_LRZ_LESS\<close>; the same draw without depth write records nothing.
\<close>

theorem direction_update_rule_witness:
  "tu6_calculate_lrz_state ex_cmd 0 =
     Inr (A6XX_GRAS_LRZ_CNTL_zero\<lparr>enable := True, lrz_write := True, fc_enable := True,
            z_test_enable := True, dir := LRZ_DIR_LE, dir_write := True,
            disable_on_wrong_dir := True\<rparr>,
          ex_cmd\<lparr>lrz := ex_lrz\<lparr>enabled := True, prev_direction := TU_LRZ_LESS\<rparr>\<rparr>) \<and>
   prev_direction (lrz ex_cmd) = TU_LRZ_UNKNOWN \<and>
   rb_depth_z_write_enable ex_cmd \<and> rb_depth_zfunc ex_cmd = VK_COMPARE_OP_LESS \<and>
   tu6_calculate_lrz_state (ex_cmd\<lparr>rb_depth_z_write_enable := False\<rparr>) 0 =
     Inr (A6XX_GRAS_LRZ_CNTL_zero\<lparr>enable := True, fc_enable := True, dir := LRZ_DIR_LE,
            dir_write := True, disable_on_wrong_dir := True\<rparr>,
          ex_cmd\<lparr>rb_depth_z_write_enable := False, lrz := ex_lrz\<lparr>enabled := True\<rparr>\<rparr>) \<and>
   prev_direction (lrz (ex_cmd\<lparr>rb_depth_z_write_enable := False, lrz := ex_lrz\<lparr>enabled := True\<rparr>\<rparr>)) =
     prev_direction (lrz (ex_cmd\<lparr>rb_depth_z_write_enable := False\<rparr>))"
proof -
  have r1: "tu6_calculate_lrz_state ex_cmd 0 =
     Inr (A6XX_GRAS_LRZ_CNTL_zero\<lparr>enable := True, lrz_write := True, fc_enable := True,
            z_test_enable := True, dir := LRZ_DIR_LE, dir_write := True,
            disable_on_wrong_dir := True\<rparr>,
          ex_cmd\<lparr>lrz := ex_lrz\<lparr>enabled := True, prev_direction := TU_LRZ_LESS\<rparr>\<rparr>)"
    by (simp add: draw_eval)
  have r2: "tu6_calculate_lrz_state (ex_cmd\<lparr>rb_depth_z_write_enable := False\<rparr>) 0 =
     Inr (A6XX_GRAS_LRZ_CNTL_zero\<lparr>enable := True, fc_enable := True, dir := LRZ_DIR_LE,
            dir_write := True, disable_on_wrong_dir := True\<rparr>,
          ex_cmd\<lparr>rb_depth_z_write_enable := False, lrz := ex_lrz\<lparr>enabled := True\<rparr>\<rparr>)"
    by (simp add: draw_eval)
  show ?thesis
    using direction_update_rule[OF r1] direction_update_rule[OF r2] r1 r2
    by (simp add: draw_eval)
qed


text \<open>
  C6 (empty-directive early exit). If the tracker is invalid, or there is no depth
  attachment, or the depth test is disabled, or the \<^verbatim>\<open>TU_DEBUG_NOLRZ\<close> override is
  set, the decision engine returns the directive with every flag false and the command
  buffer it was given: no field of the tracker is written.
\<close>

theorem empty_directive_early_exit:
  assumes "\<not> valid (lrz cmd) \<or> a = VK_ATTACHMENT_UNUSED \<or> \<not> rb_depth_z_test_enable cmd \<or>
           debug_nolrz cmd"
  shows "tu6_calculate_lrz_state cmd a =
           Inr (\<lparr>enable = False, lrz_write = False, greater_f = False, fc_enable = False,
                 z_test_enable = False, z_bounds_enable = False, dir = LRZ_DIR_ZERO,
                 dir_write = False, disable_on_wrong_dir = False\<rparr>, cmd)"
proof -
  from assms have "\<not> draw_active cmd a" by (auto simp: draw_active_def)
  then show ?thesis by (simp add: calc_inactive A6XX_GRAS_LRZ_CNTL_zero_def)
qed

text \<open>
  Witness: one draw for each of the four conditions (an invalid tracker; no depth
  attachment; depth test disabled; the override set), the last three on a valid tracker.
\<close>

theorem empty_directive_early_exit_witness:
  "\<not> valid (lrz (ex_cmd\<lparr>lrz := ex_lrz\<lparr>valid := False\<rparr>\<rparr>)) \<and>
   tu6_calculate_lrz_state (ex_cmd\<lparr>lrz := ex_lrz\<lparr>valid := False\<rparr>\<rparr>) 0 =
     Inr (\<lparr>enable = False, lrz_write = False, greater_f = False, fc_enable = False,
           z_test_enable = False, z_bounds_enable = False, dir = LRZ_DIR_ZERO,
           dir_write = False, disable_on_wrong_dir = False\<rparr>,
          ex_cmd\<lparr>lrz := ex_lrz\<lparr>valid := False\<rparr>\<rparr>) \<and>
   valid (lrz ex_cmd) \<and>
   tu6_calculate_lrz_state ex_cmd VK_ATTACHMENT_UNUSED =
     Inr (\<lparr>enable = False, lrz_write = False, greater_f = False, fc_enable = False,
           z_test_enable = False, z_bounds_enable = False, dir = LRZ_DIR_ZERO,
           dir_write = False, disable_on_wrong_dir = False\<rparr>, ex_cmd) \<and>
   \<not> rb_depth_z_test_enable (ex_cmd\<lparr>rb_depth_z_test_enable := False\<rparr>) \<and>
   tu6_calculate_lrz_state (ex_cmd\<lparr>rb_depth_z_test_enable := False\<rparr>) 0 =
     Inr (\<lparr>enable = False, lrz_write = False, greater_f = False, fc_enable = False,
           z_test_enable = False, z_bounds_enable = False, dir = LRZ_DIR_ZERO,
           dir_write = False, disable_on_wrong_dir = False\<rparr>,
          ex_cmd\<lparr>rb_depth_z_test_enable := False\<rparr>) \<and>
   debug_nolrz (ex_cmd\<lparr>debug_nolrz := True\<rparr>) \<and>
   tu6_calculate_lrz_state (ex_cmd\<lparr>debug_nolrz := True\<rparr>) 0 =
     Inr (\<lparr>enable = False, lrz_write = False, greater_f = False, fc_enable = False,
           z_test_enable = False, z_bounds_enable = False, dir = LRZ_DIR_ZERO,
           dir_write = False, disable_on_wrong_dir = False\<rparr>,
          ex_cmd\<lparr>debug_nolrz := True\<rparr>)"
proof -
  have h1: "\<not> valid (lrz (ex_cmd\<lparr>lrz := ex_lrz\<lparr>valid := False\<rparr>\<rparr>)) \<or>
            (0::32 word) = VK_ATTACHMENT_UNUSED \<or>
            \<not> rb_depth_z_test_enable (ex_cmd\<lparr>lrz := ex_lrz\<lparr>valid := False\<rparr>\<rparr>) \<or>
            debug_nolrz (ex_cmd\<lparr>lrz := ex_lrz\<lparr>valid := False\<rparr>\<rparr>)"
    by simp
  have h2: "\<not> valid (lrz ex_cmd) \<or> VK_ATTACHMENT_UNUSED = VK_ATTACHMENT_UNUSED \<or>
            \<not> rb_depth_z_test_enable ex_cmd \<or> debug_nolrz ex_cmd"
    by simp
  have h3: "\<not> valid (lrz (ex_cmd\<lparr>rb_depth_z_test_enable := False\<rparr>)) \<or>
            (0::32 word) = VK_ATTACHMENT_UNUSED \<or>
            \<not> rb_depth_z_test_enable (ex_cmd\<lparr>rb_depth_z_test_enable := False\<rparr>) \<or>
            debug_nolrz (ex_cmd\<lparr>rb_depth_z_test_enable := False\<rparr>)"
    by simp
  have h4: "\<not> valid (lrz (ex_cmd\<lparr>debug_nolrz := True\<rparr>)) \<or>
            (0::32 word) = VK_ATTACHMENT_UNUSED \<or>
            \<not> rb_depth_z_test_enable (ex_cmd\<lparr>debug_nolrz := True\<rparr>) \<or>
            debug_nolrz (ex_cmd\<lparr>debug_nolrz := True\<rparr>)"
    by simp
  have v: "valid (lrz ex_cmd)" by (simp add: ex_cmd_def ex_lrz_def)
  show ?thesis
    using empty_directive_early_exit[OF h1] empty_directive_early_exit[OF h2]
      empty_directive_early_exit[OF h3] empty_directive_early_exit[OF h4] v
    by simp
qed

text \<open>
  C7 (explicit invalidation directive under device-side tracking). On a tracker with
  \<open>gpu_dir_tracking\<close>, whenever an active draw triggers a full invalidate
  (\<^verbatim>\<open>disable_lrz\<close>), and equally whenever a call turns a valid tracker invalid, the
  tracker is invalid afterwards and the returned directive has \<open>enable = True\<close>,
  \<open>dir = LRZ_DIR_INVALID\<close> and \<open>disable_on_wrong_dir = True\<close>: it is not the empty
  directive.
\<close>

theorem explicit_invalidation_directive:
  assumes "tu6_calculate_lrz_state cmd a = Inr (c, cmd')"
    and "gpu_dir_tracking (lrz cmd)"
  shows "(draw_active cmd a \<and> full_invalidate cmd \<longrightarrow>
            \<not> valid (lrz cmd') \<and> enable c \<and> dir c = LRZ_DIR_INVALID \<and> disable_on_wrong_dir c) \<and>
         (valid (lrz cmd) \<and> \<not> valid (lrz cmd') \<longrightarrow>
            enable c \<and> dir c = LRZ_DIR_INVALID \<and> disable_on_wrong_dir c)"
proof (cases "draw_active cmd a")
  case True
  from calc_valid[OF True assms(1)] calc_explicit[OF True assms(1) _ assms(2)]
  show ?thesis by auto
next
  case False
  with assms have "cmd' = cmd" by (simp add: calc_inactive)
  with False show ?thesis by simp
qed

text \<open>
  Witness: a draw with compare op \<^verbatim>\<open>ALWAYS\<close> and depth write on the device-tracked
  tracker. It is active, triggers the full invalidate, and the directive returned is
  the explicit one.
\<close>

theorem explicit_invalidation_directive_witness:
  "tu6_calculate_lrz_state (ex_cmd\<lparr>rb_depth_zfunc := VK_COMPARE_OP_ALWAYS\<rparr>) 0 =
     Inr (A6XX_GRAS_LRZ_CNTL_zero\<lparr>enable := True, lrz_write := True, fc_enable := True,
            z_test_enable := True, dir := LRZ_DIR_INVALID, dir_write := True,
            disable_on_wrong_dir := True\<rparr>,
          ex_cmd\<lparr>rb_depth_zfunc := VK_COMPARE_OP_ALWAYS, lrz := ex_lrz\<lparr>valid := False\<rparr>\<rparr>) \<and>
   gpu_dir_tracking (lrz (ex_cmd\<lparr>rb_depth_zfunc := VK_COMPARE_OP_ALWAYS\<rparr>)) \<and>
   draw_active (ex_cmd\<lparr>rb_depth_zfunc := VK_COMPARE_OP_ALWAYS\<rparr>) 0 \<and>
   full_invalidate (ex_cmd\<lparr>rb_depth_zfunc := VK_COMPARE_OP_ALWAYS\<rparr>) \<and>
   valid (lrz (ex_cmd\<lparr>rb_depth_zfunc := VK_COMPARE_OP_ALWAYS\<rparr>)) \<and>
   \<not> valid (lrz (ex_cmd\<lparr>rb_depth_zfunc := VK_COMPARE_OP_ALWAYS, lrz := ex_lrz\<lparr>valid := False\<rparr>\<rparr>)) \<and>
   enable (A6XX_GRAS_LRZ_CNTL_zero\<lparr>enable := True, lrz_write := True, fc_enable := True,
            z_test_enable := True, dir := LRZ_DIR_INVALID, dir_write := True,
            disable_on_wrong_dir := True\<rparr>)"
proof -
  let ?X = "ex_cmd\<lparr>rb_depth_zfunc := VK_COMPARE_OP_ALWAYS\<rparr>"
  have r: "tu6_calculate_lrz_state ?X 0 =
     Inr (A6XX_GRAS_LRZ_CNTL_zero\<lparr>enable := True, lrz_write := True, fc_enable := True,
            z_test_enable := True, dir := LRZ_DIR_INVALID, dir_write := True,
            disable_on_wrong_dir := True\<rparr>,
          ex_cmd\<lparr>rb_depth_zfunc := VK_COMPARE_OP_ALWAYS, lrz := ex_lrz\<lparr>valid := False\<rparr>\<rparr>)"
    by (simp add: draw_eval)
  have g: "gpu_dir_tracking (lrz ?X)" by (simp add: ex_cmd_def ex_lrz_def)
  show ?thesis
    using explicit_invalidation_directive[OF r g] r
    by (simp add: draw_eval draw_active_def full_invalidate_def)
qed

text \<open>
  C5 (fragment-shader side-effect rule), as amended. For a draw that reaches the rule
  (it passes the early returns) and whose pipeline flags fragment-shader side effects:
  if the recorded direction is still unknown and the tracker has device-side tracking,
  the tracker is fully invalidated (\<open>valid\<close> becomes false and the explicit
  \<open>LRZ_DIR_INVALID\<close> directive is returned); in every other case, that is with a
  concrete recorded direction or without device-side tracking, the rule only disables
  LRZ for the draw: the tracker stays valid unless a depth-writing rule of the same draw
  (\<^verbatim>\<open>ALWAYS\<close>/\<^verbatim>\<open>NOT_EQUAL\<close>, a direction flip, a stencil face that is not
  allowed) invalidates it, and whenever it stays valid the directive is empty.
\<close>

theorem fs_side_effect_rule:
  assumes "tu6_calculate_lrz_state cmd a = Inr (c, cmd')"
    and "valid (lrz cmd)" and "a \<noteq> VK_ATTACHMENT_UNUSED" and "rb_depth_z_test_enable cmd"
    and "\<not> debug_nolrz cmd" and "gpu_dir_tracking (lrz cmd) \<or> attachments cmd \<noteq> None"
    and "force_disable_lrz (pipeline cmd)"
  shows "(prev_direction (lrz cmd) = TU_LRZ_UNKNOWN \<and> gpu_dir_tracking (lrz cmd) \<longrightarrow>
            \<not> valid (lrz cmd') \<and> enable c \<and> dir c = LRZ_DIR_INVALID) \<and>
         (prev_direction (lrz cmd) \<noteq> TU_LRZ_UNKNOWN \<or> \<not> gpu_dir_tracking (lrz cmd) \<longrightarrow>
            (valid (lrz cmd') \<longleftrightarrow>
               \<not> (rb_depth_z_write_enable cmd \<and>
                   (rb_depth_zfunc cmd = VK_COMPARE_OP_ALWAYS \<or>
                    rb_depth_zfunc cmd = VK_COMPARE_OP_NOT_EQUAL \<or>
                    direction_flip (prev_direction (lrz cmd)) (rb_depth_zfunc cmd) \<or>
                    (rb_stencil_enable cmd \<and> stencil_not_allowed cmd)))) \<and>
            (valid (lrz cmd') \<longrightarrow> c = A6XX_GRAS_LRZ_CNTL_zero))"
proof -
  have act: "draw_active cmd a" using assms by (simp add: draw_active_def)
  note v = calc_valid[OF act assms(1)]
  show ?thesis
  proof (intro conjI impI)
    assume u: "prev_direction (lrz cmd) = TU_LRZ_UNKNOWN \<and> gpu_dir_tracking (lrz cmd)"
    with assms(7) have f: "full_invalidate cmd" by (simp add: full_invalidate_def)
    with v show "\<not> valid (lrz cmd')" by simp
    from calc_explicit[OF act assms(1) f] u show "enable c" and "dir c = LRZ_DIR_INVALID"
      by simp_all
  next
    assume k: "prev_direction (lrz cmd) \<noteq> TU_LRZ_UNKNOWN \<or> \<not> gpu_dir_tracking (lrz cmd)"
    with v show "valid (lrz cmd') \<longleftrightarrow>
               \<not> (rb_depth_z_write_enable cmd \<and>
                   (rb_depth_zfunc cmd = VK_COMPARE_OP_ALWAYS \<or>
                    rb_depth_zfunc cmd = VK_COMPARE_OP_NOT_EQUAL \<or>
                    direction_flip (prev_direction (lrz cmd)) (rb_depth_zfunc cmd) \<or>
                    (rb_stencil_enable cmd \<and> stencil_not_allowed cmd)))"
      by (auto simp: full_invalidate_def)
    assume "valid (lrz cmd')"
    with v have nf: "\<not> full_invalidate cmd" by simp
    from k assms(7) have "temporary_disable cmd" by (simp add: temporary_disable_def)
    with calc_temporary[OF act assms(1) nf] show "c = A6XX_GRAS_LRZ_CNTL_zero" by simp
  qed
qed

text \<open>
  Witness: the flagged pipeline on the device-tracked tracker with no direction
  recorded (full invalidate, explicit directive), and on the CPU-tracked tracker with
  no direction recorded (the tracker stays valid, the directive is empty).
\<close>

theorem fs_side_effect_rule_witness:
  "tu6_calculate_lrz_state (ex_cmd\<lparr>pipeline := ex_pipeline\<lparr>force_disable_lrz := True\<rparr>\<rparr>) 0 =
     Inr (A6XX_GRAS_LRZ_CNTL_zero\<lparr>enable := True, lrz_write := True, fc_enable := True,
            z_test_enable := True, dir := LRZ_DIR_INVALID, dir_write := True,
            disable_on_wrong_dir := True\<rparr>,
          ex_cmd\<lparr>pipeline := ex_pipeline\<lparr>force_disable_lrz := True\<rparr>,
                 lrz := ex_lrz\<lparr>valid := False, prev_direction := TU_LRZ_LESS\<rparr>\<rparr>) \<and>
   prev_direction (lrz ex_cmd) = TU_LRZ_UNKNOWN \<and> gpu_dir_tracking (lrz ex_cmd) \<and>
   tu6_calculate_lrz_state ex_cmd_fs_cpu 0 =
     Inr (A6XX_GRAS_LRZ_CNTL_zero,
          ex_cmd_fs_cpu\<lparr>lrz := (lrz ex_cmd_fs_cpu)\<lparr>prev_direction := TU_LRZ_LESS\<rparr>\<rparr>) \<and>
   \<not> gpu_dir_tracking (lrz ex_cmd_fs_cpu) \<and>
   valid (lrz (ex_cmd_fs_cpu\<lparr>lrz := (lrz ex_cmd_fs_cpu)\<lparr>prev_direction := TU_LRZ_LESS\<rparr>\<rparr>))"
proof -
  let ?X = "ex_cmd\<lparr>pipeline := ex_pipeline\<lparr>force_disable_lrz := True\<rparr>\<rparr>"
  have r1: "tu6_calculate_lrz_state ?X 0 =
     Inr (A6XX_GRAS_LRZ_CNTL_zero\<lparr>enable := True, lrz_write := True, fc_enable := True,
            z_test_enable := True, dir := LRZ_DIR_INVALID, dir_write := True,
            disable_on_wrong_dir := True\<rparr>,
          ex_cmd\<lparr>pipeline := ex_pipeline\<lparr>force_disable_lrz := True\<rparr>,
                 lrz := ex_lrz\<lparr>valid := False, prev_direction := TU_LRZ_LESS\<rparr>\<rparr>)"
    by (simp add: draw_eval)
  have r2: "tu6_calculate_lrz_state ex_cmd_fs_cpu 0 =
     Inr (A6XX_GRAS_LRZ_CNTL_zero,
          ex_cmd_fs_cpu\<lparr>lrz := (lrz ex_cmd_fs_cpu)\<lparr>prev_direction := TU_LRZ_LESS\<rparr>\<rparr>)"
    by (simp add: draw_eval ex_cmd_fs_cpu_def)
  show ?thesis
    using fs_side_effect_rule[OF r1] fs_side_effect_rule[OF r2] r1 r2
    by (simp add: draw_eval ex_cmd_fs_cpu_def)
qed

text \<open>
  Counterexample to C5 as stated: the pipeline flags fragment-shader side effects and
  the recorded direction is still unknown, yet the call leaves the tracker valid,
  because the direction is tracked on the CPU only
  (\<^verbatim>\<open>|| !cmd->state.lrz.gpu_dir_tracking\<close>). The draw is active: it records the
  direction \<^verbatim>\<open>TU_LRZ_LESS\<close>.
\<close>

theorem fs_side_effect_rule_counterexample:
  "force_disable_lrz (pipeline ex_cmd_fs_cpu) \<and>
   prev_direction (lrz ex_cmd_fs_cpu) = TU_LRZ_UNKNOWN \<and>
   valid (lrz ex_cmd_fs_cpu) \<and>
   tu6_calculate_lrz_state ex_cmd_fs_cpu 0 =
     Inr (A6XX_GRAS_LRZ_CNTL_zero,
          ex_cmd_fs_cpu\<lparr>lrz := (lrz ex_cmd_fs_cpu)\<lparr>prev_direction := TU_LRZ_LESS\<rparr>\<rparr>) \<and>
   valid (lrz (ex_cmd_fs_cpu\<lparr>lrz := (lrz ex_cmd_fs_cpu)\<lparr>prev_direction := TU_LRZ_LESS\<rparr>\<rparr>))"
  by (simp add: draw_eval ex_cmd_fs_cpu_def)

text \<open>
  C8 (stencil write forces no early test), as amended. A draw with stencil test
  enabled and, on some face, compare op \<^verbatim>\<open>ALWAYS\<close> with that face's stencil write
  enabled gets a directive with \<open>enable = False\<close>, except when the draw fully
  invalidates a valid tracker that has device-side tracking: then the directive is the
  explicit invalidation (\<open>enable = True\<close>, \<open>dir = LRZ_DIR_INVALID\<close>,
  \<open>disable_on_wrong_dir = True\<close>). With depth write disabled and no fragment-shader
  flag the directive always has \<open>enable = False\<close>.
\<close>

theorem stencil_write_directive:
  assumes "tu6_calculate_lrz_state cmd a = Inr (c, cmd')"
    and "rb_stencil_enable cmd"
    and "(rb_stencil_func cmd = VK_COMPARE_OP_ALWAYS \<and> stencil_front_write cmd) \<or>
         (rb_stencil_func_bf cmd = VK_COMPARE_OP_ALWAYS \<and> stencil_back_write cmd)"
  shows "(enable c \<longrightarrow>
            gpu_dir_tracking (lrz cmd) \<and> valid (lrz cmd) \<and> \<not> valid (lrz cmd') \<and>
            dir c = LRZ_DIR_INVALID \<and> disable_on_wrong_dir c) \<and>
         (\<not> rb_depth_z_write_enable cmd \<and> \<not> force_disable_lrz (pipeline cmd) \<longrightarrow> \<not> enable c)"
proof (cases "draw_active cmd a")
  case True
  have sna: "stencil_not_allowed cmd"
    using assms(3) by (auto simp: stencil_not_allowed_def stencil_allowed_snd)
  note v = calc_valid[OF True assms(1)]
  show ?thesis
  proof (cases "full_invalidate cmd")
    case f: True
    show ?thesis
    proof (cases "gpu_dir_tracking (lrz cmd)")
      case g: True
      from calc_explicit[OF True assms(1) f g] v f g True sna assms(2)
      show ?thesis by (auto simp: draw_active_def full_invalidate_def)
    next
      case g: False
      from calc_cpu_invalid[OF True assms(1) f g] show ?thesis
        by (simp add: A6XX_GRAS_LRZ_CNTL_zero_def)
    qed
  next
    case nf: False
    with sna assms(2) have "\<not> rb_depth_z_write_enable cmd" by (auto simp: full_invalidate_def)
    with sna assms(2) have "temporary_disable cmd" by (simp add: temporary_disable_def)
    from calc_temporary[OF True assms(1) nf this] show ?thesis
      by (simp add: A6XX_GRAS_LRZ_CNTL_zero_def)
  qed
next
  case False
  with assms have "c = A6XX_GRAS_LRZ_CNTL_zero" by (simp add: calc_inactive)
  then show ?thesis by (simp add: A6XX_GRAS_LRZ_CNTL_zero_def)
qed

text \<open>
  Witness: the stencil draw with depth write (explicit invalidation directive, the
  tracker goes from valid to invalid) and without depth write (empty directive).
\<close>

theorem stencil_write_directive_witness:
  "tu6_calculate_lrz_state ex_cmd_stencil 0 =
     Inr (A6XX_GRAS_LRZ_CNTL_zero\<lparr>enable := True, lrz_write := True, fc_enable := True,
            z_test_enable := True, dir := LRZ_DIR_INVALID, dir_write := True,
            disable_on_wrong_dir := True\<rparr>,
          ex_cmd_stencil\<lparr>lrz := ex_lrz\<lparr>valid := False, prev_direction := TU_LRZ_LESS\<rparr>\<rparr>) \<and>
   rb_stencil_enable ex_cmd_stencil \<and> rb_stencil_func ex_cmd_stencil = VK_COMPARE_OP_ALWAYS \<and>
   stencil_front_write ex_cmd_stencil \<and>
   gpu_dir_tracking (lrz ex_cmd_stencil) \<and> valid (lrz ex_cmd_stencil) \<and>
   tu6_calculate_lrz_state (ex_cmd_stencil\<lparr>rb_depth_z_write_enable := False\<rparr>) 0 =
     Inr (A6XX_GRAS_LRZ_CNTL_zero, ex_cmd_stencil\<lparr>rb_depth_z_write_enable := False\<rparr>) \<and>
   \<not> enable A6XX_GRAS_LRZ_CNTL_zero"
proof -
  have r1: "tu6_calculate_lrz_state ex_cmd_stencil 0 =
     Inr (A6XX_GRAS_LRZ_CNTL_zero\<lparr>enable := True, lrz_write := True, fc_enable := True,
            z_test_enable := True, dir := LRZ_DIR_INVALID, dir_write := True,
            disable_on_wrong_dir := True\<rparr>,
          ex_cmd_stencil\<lparr>lrz := ex_lrz\<lparr>valid := False, prev_direction := TU_LRZ_LESS\<rparr>\<rparr>)"
    by (simp add: draw_eval ex_cmd_stencil_def)
  have r2: "tu6_calculate_lrz_state (ex_cmd_stencil\<lparr>rb_depth_z_write_enable := False\<rparr>) 0 =
     Inr (A6XX_GRAS_LRZ_CNTL_zero, ex_cmd_stencil\<lparr>rb_depth_z_write_enable := False\<rparr>)"
    by (simp add: draw_eval ex_cmd_stencil_def)
  show ?thesis
    using stencil_write_directive[OF r1] stencil_write_directive[OF r2] r1 r2
    by (simp add: draw_eval ex_cmd_stencil_def)
qed

text \<open>
  Counterexample to C8 as stated: stencil test enabled, front compare op
  \<^verbatim>\<open>ALWAYS\<close>, front stencil write enabled, and the directive returned has
  \<open>enable = True\<close>. The draw writes depth, so the stencil write invalidates the
  tracker, and under device-side tracking the invalidation is emitted explicitly.
\<close>

theorem stencil_write_directive_counterexample:
  "rb_stencil_enable ex_cmd_stencil \<and>
   rb_stencil_func ex_cmd_stencil = VK_COMPARE_OP_ALWAYS \<and>
   stencil_front_write ex_cmd_stencil \<and>
   tu6_calculate_lrz_state ex_cmd_stencil 0 =
     Inr (A6XX_GRAS_LRZ_CNTL_zero\<lparr>enable := True, lrz_write := True, fc_enable := True,
            z_test_enable := True, dir := LRZ_DIR_INVALID, dir_write := True,
            disable_on_wrong_dir := True\<rparr>,
          ex_cmd_stencil\<lparr>lrz := ex_lrz\<lparr>valid := False, prev_direction := TU_LRZ_LESS\<rparr>\<rparr>) \<and>
   enable (A6XX_GRAS_LRZ_CNTL_zero\<lparr>enable := True, lrz_write := True, fc_enable := True,
            z_test_enable := True, dir := LRZ_DIR_INVALID, dir_write := True,
            disable_on_wrong_dir := True\<rparr>)"
  by (simp add: draw_eval ex_cmd_stencil_def)


section \<open>Claims about the initialisation of the tracker\<close>

lemma init_state_reuse:
  assumes "tu_lrz_init_state cmd att view = Inr cmd'"
    and "reuse_previous_state (lrz cmd) \<longrightarrow> gpu_dir_tracking (lrz cmd)"
  shows "reuse_previous_state (lrz cmd') \<longrightarrow> gpu_dir_tracking (lrz cmd')"
  using assms by (auto simp: tu_lrz_init_state_def Let_def split: if_splits)

lemma tu_lrz_state_zero_fields:
  "\<not> reuse_previous_state tu_lrz_state_zero" "\<not> gpu_dir_tracking tu_lrz_state_zero"
  "\<not> valid tu_lrz_state_zero" "\<not> fast_clear tu_lrz_state_zero"
  "image_view tu_lrz_state_zero = None"
  by (simp_all add: tu_lrz_state_zero_def)

lemma init_state_zero_reuse:
  assumes "tu_lrz_init_state (cmd\<lparr>lrz := tu_lrz_state_zero\<rparr>) att view = Inr cmd'"
  shows "reuse_previous_state (lrz cmd') \<longrightarrow> gpu_dir_tracking (lrz cmd')"
  using init_state_reuse[OF assms] by (simp add: tu_lrz_state_zero_fields)

lemma begin_resumed_renderpass_reuse:
  assumes "tu_lrz_begin_resumed_renderpass cmd cvs = Inr cmd'"
  shows "reuse_previous_state (lrz cmd') \<longrightarrow> gpu_dir_tracking (lrz cmd')"
  using assms unfolding tu_lrz_begin_resumed_renderpass_def Let_def
  by (auto simp: tu_lrz_state_zero_fields split: sum.splits if_splits
      dest!: init_state_zero_reuse)

lemma begin_renderpass_reuse:
  assumes "tu_lrz_begin_renderpass cmd cvs = Inr (cmd', out)"
  shows "reuse_previous_state (lrz cmd') \<longrightarrow> gpu_dir_tracking (lrz cmd')"
  using assms unfolding tu_lrz_begin_renderpass_def Let_def
  by (auto simp: tu_lrz_state_zero_fields split: sum.splits if_splits
      dest!: begin_resumed_renderpass_reuse)

lemma begin_secondary_cmdbuf_reuse:
  assumes "tu_lrz_begin_secondary_cmdbuf cmd = Inr cmd'"
  shows "reuse_previous_state (lrz cmd') \<longrightarrow> gpu_dir_tracking (lrz cmd')"
  using assms
  by (auto simp: tu_lrz_begin_secondary_cmdbuf_def tu_lrz_init_secondary_def Let_def
      tu_lrz_state_zero_fields split: if_splits)

lemma lrz_op_step_reuse:
  assumes "lrz_op_step s op = Inr s'"
    and "is_begin_op op \<or> (reuse_previous_state s \<longrightarrow> gpu_dir_tracking s)"
  shows "reuse_previous_state s' \<longrightarrow> gpu_dir_tracking s'"
proof (cases op)
  case (OP_BEGIN_RENDERPASS cmd cvs)
  with assms(1) show ?thesis
    by (auto split: sum.splits dest!: begin_renderpass_reuse)
next
  case (OP_BEGIN_RESUMED_RENDERPASS cmd cvs)
  with assms(1) show ?thesis
    by (auto split: sum.splits dest!: begin_resumed_renderpass_reuse)
next
  case (OP_BEGIN_SECONDARY_CMDBUF cmd)
  with assms(1) show ?thesis
    by (auto split: sum.splits dest!: begin_secondary_cmdbuf_reuse)
next
  case (OP_DRAW cmd a)
  with assms(1) obtain c cmd' where
    r: "tu6_calculate_lrz_state (cmd\<lparr>lrz := s\<rparr>) a = Inr (c, cmd')" and s': "s' = lrz cmd'"
    by (auto split: sum.splits)
  from calc_unchanged_fields(1,2)[OF r] s' assms(2) OP_DRAW show ?thesis by simp
next
  case (OP_DISABLE_DURING_RENDERPASS cmd)
  with assms show ?thesis
    by (auto simp: tu_lrz_disable_during_renderpass_def Let_def)
qed

lemma lrz_run_reuse:
  "lrz_run s ops = Inr s' \<Longrightarrow> reuse_previous_state s \<longrightarrow> gpu_dir_tracking s \<Longrightarrow>
   reuse_previous_state s' \<longrightarrow> gpu_dir_tracking s'"
proof (induction ops arbitrary: s)
  case Nil
  then show ?case by simp
next
  case (Cons op ops)
  from Cons.prems(1) obtain s1 where
    st: "lrz_op_step s op = Inr s1" and run: "lrz_run s1 ops = Inr s'"
    by (auto split: sum.splits)
  from lrz_op_step_reuse[OF st] Cons.prems(2)
  have "reuse_previous_state s1 \<longrightarrow> gpu_dir_tracking s1" by blast
  from Cons.IH[OF run this] show ?case .
qed

text \<open>
  With the reuse precondition the \<^verbatim>\<open>assert(lrz->gpu_dir_tracking)\<close> of
  \<^verbatim>\<open>tu_lrz_tiling_begin\<close> holds, so the function returns its command stream.
\<close>

lemma tiling_begin_returns:
  assumes "reuse_previous_state (lrz cmd) \<longrightarrow> gpu_dir_tracking (lrz cmd)"
  shows "\<exists>out. tu_lrz_tiling_begin cmd = Inr out"
  using assms by (auto simp: tu_lrz_tiling_begin_def Let_def split: option.splits)

text \<open>
  C9 (reuse precondition). Take any tracker and any sequence of the operations that
  write it (render-pass begin, resumed begin, secondary begin, per-draw decision
  engine, in-pass disable) that starts with a begin operation and runs without error.
  The tracker it produces never has \<open>reuse_previous_state\<close> set without
  \<open>gpu_dir_tracking\<close>.
\<close>

theorem reuse_requires_gpu_dir_tracking:
  assumes "is_begin_op op" and "lrz_run s0 (op # ops) = Inr s"
  shows "\<not> (reuse_previous_state s \<and> \<not> gpu_dir_tracking s)"
proof -
  from assms(2) obtain s1 where
    st: "lrz_op_step s0 op = Inr s1" and run: "lrz_run s1 ops = Inr s"
    by (auto split: sum.splits)
  from lrz_op_step_reuse[OF st] assms(1)
  have "reuse_previous_state s1 \<longrightarrow> gpu_dir_tracking s1" by blast
  from lrz_run_reuse[OF run this] show ?thesis by blast
qed

text \<open>The definitions that evaluating a begin operation on a concrete input unfolds.\<close>

lemmas begin_eval =
  tu_lrz_begin_renderpass_def tu_lrz_begin_resumed_renderpass_def tu_lrz_init_state_def
  lrz_img_count_of_def clears_depth_of_def first_lrz_attachment.simps Let_def
  VK_IMAGE_ASPECT_COLOR_BIT_def VK_IMAGE_ASPECT_DEPTH_BIT_def
  tu_lrz_state_zero_def VkClearValue_zero_def tu6_emit_lrz_buffer_def
  float_eq_0_def float_eq_1_def
  ex_cmd_def ex_att_def ex_view_def ex_image_def

text \<open>
  Witness: a render pass whose depth attachment is loaded and not cleared begins on a
  device with direction tracking (the tracker then reuses the previous pass's state),
  followed by a draw. The run starts from a tracker that violates the precondition.
\<close>

theorem reuse_requires_gpu_dir_tracking_witness:
  "is_begin_op (OP_BEGIN_RENDERPASS ex_cmd_load []) \<and>
   lrz_run (tu_lrz_state_zero\<lparr>reuse_previous_state := True\<rparr>)
     [OP_BEGIN_RENDERPASS ex_cmd_load [], OP_DRAW ex_cmd_load 0] =
   Inr \<lparr>image_view = Some ex_view, valid = True, enabled = True, fast_clear = True,
        gpu_dir_tracking = True, reuse_previous_state = True,
        prev_direction = TU_LRZ_LESS, depth_clear_value = VkClearValue_zero\<rparr> \<and>
   reuse_previous_state
     \<lparr>image_view = Some ex_view, valid = True, enabled = True, fast_clear = True,
      gpu_dir_tracking = True, reuse_previous_state = True,
      prev_direction = TU_LRZ_LESS, depth_clear_value = VkClearValue_zero\<rparr> \<and>
   gpu_dir_tracking
     \<lparr>image_view = Some ex_view, valid = True, enabled = True, fast_clear = True,
      gpu_dir_tracking = True, reuse_previous_state = True,
      prev_direction = TU_LRZ_LESS, depth_clear_value = VkClearValue_zero\<rparr>"
proof -
  have b: "is_begin_op (OP_BEGIN_RENDERPASS ex_cmd_load [])" by simp
  have r: "lrz_run (tu_lrz_state_zero\<lparr>reuse_previous_state := True\<rparr>)
     [OP_BEGIN_RENDERPASS ex_cmd_load [], OP_DRAW ex_cmd_load 0] =
   Inr \<lparr>image_view = Some ex_view, valid = True, enabled = True, fast_clear = True,
        gpu_dir_tracking = True, reuse_previous_state = True,
        prev_direction = TU_LRZ_LESS, depth_clear_value = VkClearValue_zero\<rparr>"
    by (simp add: begin_eval draw_eval ex_cmd_load_def ex_att_load_def)
  show ?thesis
    using reuse_requires_gpu_dir_tracking[OF b r] b r by simp
qed


lemma first_lrz_attachment_found:
  "first_lrz_attachment views count a0 = Inr a \<Longrightarrow> a < count \<Longrightarrow>
   a < length views \<and> lrz_height (image_f (views ! a)) \<noteq> 0"
proof (induction views count a0 rule: first_lrz_attachment.induct)
  case (1 views count a0)
  show ?case
  proof (cases "a0 < count \<and> a0 < length views \<and> lrz_height (image_f (views ! a0)) = 0")
    case True
    with "1.prems"(1) have "first_lrz_attachment views count (Suc a0) = Inr a"
      by (simp add: first_lrz_attachment.simps[of views count a0])
    with "1.IH" True "1.prems"(2) show ?thesis by simp
  next
    case False
    with "1.prems" show ?thesis
      by (auto simp: first_lrz_attachment.simps[of views count a0] split: if_splits)
  qed
qed

lemma first_lrz_attachment_le:
  "first_lrz_attachment views count a0 = Inr a \<Longrightarrow> a0 \<le> count \<Longrightarrow> a \<le> count"
proof (induction views count a0 rule: first_lrz_attachment.induct)
  case (1 views count a0)
  show ?case
  proof (cases "a0 < count \<and> a0 < length views \<and> lrz_height (image_f (views ! a0)) = 0")
    case True
    with "1.prems"(1) have "first_lrz_attachment views count (Suc a0) = Inr a"
      by (simp add: first_lrz_attachment.simps[of views count a0])
    with "1.IH" True show ?thesis by simp
  next
    case False
    with "1.prems" show ?thesis
      by (auto simp: first_lrz_attachment.simps[of views count a0] split: if_splits)
  qed
qed

text \<open>
  What \<^verbatim>\<open>tu_lrz_init_state\<close> leaves in a zeroed tracker for an image with an LRZ
  buffer, by the two guards it passes or fails.
\<close>

lemma init_state_zero_result:
  assumes "lrz_height (image_f view) \<noteq> 0"
  shows "tu_lrz_init_state (cmd\<lparr>lrz := tu_lrz_state_zero\<rparr>) att view =
     Inr (if \<not> has_lrz_dir_tracking cmd \<and> \<not> clears_depth_of att
          then cmd\<lparr>lrz := tu_lrz_state_zero\<rparr>
          else if \<not> clears_depth_of att \<and> \<not> load att
          then cmd\<lparr>lrz := tu_lrz_state_zero\<lparr>image_view := Some view\<rparr>\<rparr>
          else cmd\<lparr>lrz := tu_lrz_state_zero
                 \<lparr>image_view := Some view, valid := True,
                  fast_clear := (0 < lrz_fc_size (image_f view)),
                  gpu_dir_tracking := has_lrz_dir_tracking cmd,
                  reuse_previous_state := \<not> clears_depth_of att\<rparr>\<rparr>)"
  using assms by (simp add: tu_lrz_init_state_def Let_def tu_lrz_state_zero_def)

lemma begin_resumed_renderpass_fast_clear:
  assumes "tu_lrz_begin_resumed_renderpass cmd cvs = Inr cmd'"
    and "attachments cmd = Some views"
    and "first_lrz_attachment views (length (pass_attachments cmd)) 0 = Inr a"
  shows "fast_clear (lrz cmd') \<longleftrightarrow>
           a < length (pass_attachments cmd) \<and>
           0 < lrz_fc_size (image_f (views ! a)) \<and>
           (if clears_depth_of (pass_attachments cmd ! a)
            then float_eq_0 (depth (cvs ! a)) \<or> float_eq_1 (depth (cvs ! a))
            else has_lrz_dir_tracking cmd \<and> load (pass_attachments cmd ! a))"
proof (cases "a < length (pass_attachments cmd)")
  case True
  from first_lrz_attachment_found[OF assms(3) True]
  have h: "lrz_height (image_f (views ! a)) \<noteq> 0" by simp
  from assms(1) True show ?thesis
    unfolding tu_lrz_begin_resumed_renderpass_def Let_def
    by (auto simp: assms(2,3) init_state_zero_result[OF h] tu_lrz_state_zero_fields
        split: if_splits)
next
  case False
  from first_lrz_attachment_le[OF assms(3)] False
  have "a = length (pass_attachments cmd)" by simp
  with assms(1) show ?thesis
    unfolding tu_lrz_begin_resumed_renderpass_def Let_def
    by (auto simp: assms(2,3) tu_lrz_state_zero_fields)
qed


text \<open>
  C4 (fast-clear eligibility), as amended. After \<^verbatim>\<open>tu_lrz_begin_renderpass\<close>,
  with \<open>a\<close> the index the attachment search returns, the tracker's \<open>fast_clear\<close> is
  true if and only if the pass did not take the branch that disables LRZ for several
  LRZ images in several subpasses, an attachment with an LRZ buffer was found, its
  image has a fast-clear buffer (\<open>lrz_fc_size > 0\<close>), and either the attachment is
  cleared this pass and the clear value is exactly 0.0 or 1.0, or it is not cleared
  but loaded and the device tracks the direction (the previous pass's state is
  reused). In particular a clear to any other value, such as 0.5, leaves \<open>fast_clear\<close>
  false.
\<close>

theorem fast_clear_eligibility:
  assumes "tu_lrz_begin_renderpass cmd cvs = Inr (cmd', out)"
    and "attachments cmd = Some views"
    and "first_lrz_attachment views (length (pass_attachments cmd)) 0 = Inr a"
  shows "fast_clear (lrz cmd') \<longleftrightarrow>
           \<not> (has_lrz_dir_tracking cmd \<and> 1 < subpass_count cmd \<and>
              1 < length (filter (\<lambda>v. lrz_height (image_f v) \<noteq> 0)
                            (take (length (pass_attachments cmd)) views))) \<and>
           a < length (pass_attachments cmd) \<and>
           0 < lrz_fc_size (image_f (views ! a)) \<and>
           (if clears_depth_of (pass_attachments cmd ! a)
            then float_eq_0 (depth (cvs ! a)) \<or> float_eq_1 (depth (cvs ! a))
            else has_lrz_dir_tracking cmd \<and> load (pass_attachments cmd ! a))"
proof (cases "has_lrz_dir_tracking cmd \<and> 1 < subpass_count cmd \<and>
              1 < length (filter (\<lambda>v. lrz_height (image_f v) \<noteq> 0)
                            (take (length (pass_attachments cmd)) views))")
  case True
  with assms(1) have "lrz cmd' = tu_lrz_state_zero"
    unfolding tu_lrz_begin_renderpass_def Let_def lrz_img_count_of_def
    by (auto simp: assms(2) split: if_splits)
  with True show ?thesis by (simp add: tu_lrz_state_zero_fields)
next
  case False
  with assms(1) have "tu_lrz_begin_resumed_renderpass cmd cvs = Inr cmd'"
    unfolding tu_lrz_begin_renderpass_def Let_def lrz_img_count_of_def
    by (auto simp: assms(2) split: if_splits sum.splits)
  from begin_resumed_renderpass_fast_clear[OF this assms(2,3)] False show ?thesis by blast
qed

text \<open>
  Witness: the pass of \<open>ex_cmd\<close> clears its depth attachment. With clear value 1.0
  fast clear is enabled, with clear value 0.5 it is not.
\<close>

theorem fast_clear_eligibility_witness:
  "tu_lrz_begin_renderpass ex_cmd [\<lparr>depth = 0x3F800000, stencil = 0\<rparr>] =
     Inr (ex_cmd\<lparr>dirty_lrz := True,
                 lrz := ex_lrz\<lparr>depth_clear_value := \<lparr>depth = 0x3F800000, stencil = 0\<rparr>\<rparr>\<rparr>, []) \<and>
   fast_clear (lrz (ex_cmd\<lparr>dirty_lrz := True,
                 lrz := ex_lrz\<lparr>depth_clear_value := \<lparr>depth = 0x3F800000, stencil = 0\<rparr>\<rparr>\<rparr>)) \<and>
   tu_lrz_begin_renderpass ex_cmd [\<lparr>depth = 0x3F000000, stencil = 0\<rparr>] =
     Inr (ex_cmd\<lparr>dirty_lrz := True,
                 lrz := ex_lrz\<lparr>fast_clear := False,
                   depth_clear_value := \<lparr>depth = 0x3F000000, stencil = 0\<rparr>\<rparr>\<rparr>, []) \<and>
   \<not> fast_clear (lrz (ex_cmd\<lparr>dirty_lrz := True,
                 lrz := ex_lrz\<lparr>fast_clear := False,
                   depth_clear_value := \<lparr>depth = 0x3F000000, stencil = 0\<rparr>\<rparr>\<rparr>)) \<and>
   attachments ex_cmd = Some [ex_view] \<and>
   first_lrz_attachment [ex_view] (length (pass_attachments ex_cmd)) 0 = Inr 0 \<and>
   clears_depth_of (pass_attachments ex_cmd ! 0) \<and>
   0 < lrz_fc_size (image_f ([ex_view] ! 0)) \<and>
   float_eq_1 0x3F800000 \<and> \<not> float_eq_0 0x3F000000 \<and> \<not> float_eq_1 0x3F000000"
proof -
  have r1: "tu_lrz_begin_renderpass ex_cmd [\<lparr>depth = 0x3F800000, stencil = 0\<rparr>] =
     Inr (ex_cmd\<lparr>dirty_lrz := True,
                 lrz := ex_lrz\<lparr>depth_clear_value := \<lparr>depth = 0x3F800000, stencil = 0\<rparr>\<rparr>\<rparr>, [])"
    by (simp add: begin_eval ex_lrz_def)
  have r2: "tu_lrz_begin_renderpass ex_cmd [\<lparr>depth = 0x3F000000, stencil = 0\<rparr>] =
     Inr (ex_cmd\<lparr>dirty_lrz := True,
                 lrz := ex_lrz\<lparr>fast_clear := False,
                   depth_clear_value := \<lparr>depth = 0x3F000000, stencil = 0\<rparr>\<rparr>\<rparr>, [])"
    by (simp add: begin_eval ex_lrz_def)
  have a: "attachments ex_cmd = Some [ex_view]" by (simp add: ex_cmd_def)
  have f: "first_lrz_attachment [ex_view] (length (pass_attachments ex_cmd)) 0 = Inr 0"
    by (simp add: begin_eval)
  show ?thesis
    using fast_clear_eligibility[OF r1 a f] fast_clear_eligibility[OF r2 a f] r1 r2 a f
    by (simp add: begin_eval ex_lrz_def)
qed

text \<open>
  Counterexample to C4 as stated: on a device with direction tracking the pass of
  \<open>ex_cmd_dont_care\<close> neither clears nor loads its depth attachment. The image
  supports fast clear, the attachment is not cleared (and the recorded clear value is
  the zero that \<^verbatim>\<open>memset\<close> left, which compares equal to 0.0), yet \<open>fast_clear\<close>
  is false after the begin: \<^verbatim>\<open>tu_lrz_init_state\<close> returns at
  \<^verbatim>\<open>if (!clears_depth && !att->load)\<close> before it assigns \<open>fast_clear\<close>.
\<close>

theorem fast_clear_eligibility_counterexample:
  "tu_lrz_begin_renderpass ex_cmd_dont_care [] =
     Inr (ex_cmd_dont_care\<lparr>dirty_lrz := True,
            lrz := tu_lrz_state_zero\<lparr>image_view := Some ex_view\<rparr>\<rparr>,
          [CS_LRZ_BUFFER_REGS 0 0 0]) \<and>
   0 < lrz_fc_size (image_f ex_view) \<and>
   \<not> clears_depth_of ex_att_dont_care \<and>
   float_eq_0 (depth (depth_clear_value (tu_lrz_state_zero\<lparr>image_view := Some ex_view\<rparr>))) \<and>
   \<not> fast_clear (lrz (ex_cmd_dont_care\<lparr>dirty_lrz := True,
            lrz := tu_lrz_state_zero\<lparr>image_view := Some ex_view\<rparr>\<rparr>))"
  by (simp add: begin_eval ex_cmd_dont_care_def ex_att_dont_care_def)

text \<open>
  C10. On a device with direction tracking, a primary render-pass begin whose only
  attachment with an LRZ buffer is neither cleared nor loaded leaves the tracker with
  the attachment's image view set and \<open>valid = False\<close>, as the claim says. But the
  tracker's \<open>gpu_dir_tracking\<close> is false as well (\<^verbatim>\<open>tu_lrz_init_state\<close> returns
  before assigning it), so \<^verbatim>\<open>tu_lrz_tiling_begin\<close> computes
  \<^verbatim>\<open>invalidate_lrz = false\<close>: it is not a no-op, but what it emits is the buffer
  registers followed by \<^verbatim>\<open>tu6_clear_lrz\<close> with the zero clear value (and
  \<^verbatim>\<open>tu6_dirty_lrz_fc\<close> when the image has a fast-clear buffer), not the
  disable-via-depth-view sequence.
\<close>

theorem dont_care_tiling_begin_clears:
  assumes "tu_lrz_begin_renderpass cmd cvs = Inr (cmd', out)"
    and "attachments cmd = Some views"
    and "first_lrz_attachment views (length (pass_attachments cmd)) 0 = Inr a"
    and "a < length (pass_attachments cmd)"
    and "length (filter (\<lambda>v. lrz_height (image_f v) \<noteq> 0)
                   (take (length (pass_attachments cmd)) views)) = 1"
    and "has_lrz_dir_tracking cmd"
    and "\<not> clears_depth_of (pass_attachments cmd ! a)"
    and "\<not> load (pass_attachments cmd ! a)"
  shows "image_view (lrz cmd') = Some (views ! a) \<and> \<not> valid (lrz cmd') \<and>
         \<not> gpu_dir_tracking (lrz cmd') \<and>
         tu_lrz_tiling_begin cmd' =
           Inr (tu6_emit_lrz_buffer (Some (image_f (views ! a))) @
                CS_CLEAR_LRZ (image_f (views ! a)) VkClearValue_zero #
                (if lrz_fc_size (image_f (views ! a)) \<noteq> 0
                 then [CS_DIRTY_LRZ_FC (image_f (views ! a))] else []))"
proof -
  from first_lrz_attachment_found[OF assms(3,4)]
  have h: "lrz_height (image_f (views ! a)) \<noteq> 0" by simp
  from assms(1,5) have "tu_lrz_begin_resumed_renderpass cmd cvs = Inr cmd'"
    unfolding tu_lrz_begin_renderpass_def Let_def lrz_img_count_of_def
    by (auto simp: assms(2) split: if_splits sum.splits)
  with assms(4,6,7,8)
  have l: "lrz cmd' = tu_lrz_state_zero\<lparr>image_view := Some (views ! a)\<rparr>"
    unfolding tu_lrz_begin_resumed_renderpass_def Let_def
    by (auto simp: assms(2,3) init_state_zero_result[OF h])
  show ?thesis
    by (simp add: l tu_lrz_tiling_begin_def Let_def tu_lrz_state_zero_def)
qed

text \<open>
  The failing input: \<open>ex_cmd_dont_care\<close>. The tile-pass begin emits three entries,
  none of them a register write or an \<^verbatim>\<open>LRZ_CLEAR\<close> event, whereas the disable
  sequence the claim expects starts (after the buffer registers) with the write of
  the invalid depth view.
\<close>

theorem dont_care_tiling_begin_clears_witness:
  "tu_lrz_begin_renderpass ex_cmd_dont_care [] =
     Inr (ex_cmd_dont_care\<lparr>dirty_lrz := True,
            lrz := tu_lrz_state_zero\<lparr>image_view := Some ex_view\<rparr>\<rparr>,
          [CS_LRZ_BUFFER_REGS 0 0 0]) \<and>
   has_lrz_dir_tracking ex_cmd_dont_care \<and>
   tu_lrz_tiling_begin
     (ex_cmd_dont_care\<lparr>dirty_lrz := True,
        lrz := tu_lrz_state_zero\<lparr>image_view := Some ex_view\<rparr>\<rparr>) =
     Inr [CS_LRZ_BUFFER_REGS 0x104000 64 0x108000,
          CS_CLEAR_LRZ ex_image VkClearValue_zero,
          CS_DIRTY_LRZ_FC ex_image] \<and>
   tu6_emit_lrz_buffer (Some ex_image) @
   tu6_disable_lrz_via_depth_view ex_cmd_dont_care @
   tu6_write_lrz_reg ex_cmd_dont_care (REG_GRAS_LRZ_DEPTH_VIEW_DWORD 0) =
     [CS_LRZ_BUFFER_REGS 0x104000 64 0x108000,
      CS_PKT4 (REG_GRAS_LRZ_DEPTH_VIEW_FIELDS 0x7FF 0x7FF 0xF),
      CS_PKT4 (REG_GRAS_LRZ_CNTL
        (A6XX_GRAS_LRZ_CNTL_zero\<lparr>enable := True, disable_on_wrong_dir := True\<rparr>)),
      CS_EVENT_WRITE LRZ_CLEAR, CS_EVENT_WRITE LRZ_FLUSH,
      CS_PKT4 (REG_GRAS_LRZ_DEPTH_VIEW_DWORD 0)]"
proof -
  have r: "tu_lrz_begin_renderpass ex_cmd_dont_care [] =
     Inr (ex_cmd_dont_care\<lparr>dirty_lrz := True,
            lrz := tu_lrz_state_zero\<lparr>image_view := Some ex_view\<rparr>\<rparr>,
          [CS_LRZ_BUFFER_REGS 0 0 0])"
    by (simp add: begin_eval ex_cmd_dont_care_def ex_att_dont_care_def)
  have a: "attachments ex_cmd_dont_care = Some [ex_view]"
    by (simp add: ex_cmd_dont_care_def ex_cmd_def)
  have f: "first_lrz_attachment [ex_view] (length (pass_attachments ex_cmd_dont_care)) 0 = Inr 0"
    by (simp add: begin_eval ex_cmd_dont_care_def)
  have d: "tu6_emit_lrz_buffer (Some ex_image) @
   tu6_disable_lrz_via_depth_view ex_cmd_dont_care @
   tu6_write_lrz_reg ex_cmd_dont_care (REG_GRAS_LRZ_DEPTH_VIEW_DWORD 0) =
     [CS_LRZ_BUFFER_REGS 0x104000 64 0x108000,
      CS_PKT4 (REG_GRAS_LRZ_DEPTH_VIEW_FIELDS 0x7FF 0x7FF 0xF),
      CS_PKT4 (REG_GRAS_LRZ_CNTL
        (A6XX_GRAS_LRZ_CNTL_zero\<lparr>enable := True, disable_on_wrong_dir := True\<rparr>)),
      CS_EVENT_WRITE LRZ_CLEAR, CS_EVENT_WRITE LRZ_FLUSH,
      CS_PKT4 (REG_GRAS_LRZ_DEPTH_VIEW_DWORD 0)]"
    by (simp add: tu6_emit_lrz_buffer_def tu6_disable_lrz_via_depth_view_def
        tu6_write_lrz_reg_def ex_image_def ex_cmd_dont_care_def ex_cmd_def)
  show ?thesis
    using dont_care_tiling_begin_clears[OF r a f] r d
    by (simp add: begin_eval ex_cmd_dont_care_def ex_att_dont_care_def)
qed


end
